theory Spec2Isabelle
  imports Complex_Main
begin

section \<open>Orbit camera controller (App.jsx, lines 61--91)\<close>

text \<open>
  The controller is the closure state of the first effect of \<^verbatim>\<open>App\<close>:
  \<^verbatim>\<open>isDragging\<close>, \<^verbatim>\<open>prevMouse\<close>, \<^verbatim>\<open>spherical = {theta, phi}\<close>, \<^verbatim>\<open>radius\<close>, and the
  camera it moves. JavaScript numbers are modelled as reals: the handlers only add,
  multiply and take \<^verbatim>\<open>Math.max\<close>/\<^verbatim>\<open>Math.min\<close> of finite numbers, and rounding is not
  modelled. The camera's orientation is recorded as the point last given to
  \<^verbatim>\<open>camera.lookAt\<close> (\<open>None\<close> while the camera still has the orientation it was
  constructed with).
\<close>

type_synonym vec3 = "real \<times> real \<times> real"

record orbit =
  isDragging :: bool
  prevMouse :: "real \<times> real"
  theta :: real
  phi :: real
  radius :: real
  position :: vec3
  lookAt :: "vec3 option"

definition initial_orbit :: orbit where
  "initial_orbit =
     \<lparr>isDragging = False, prevMouse = (0, 0), theta = 0, phi = pi / 2, radius = 2.8,
      position = (0, 0, 2.8), lookAt = None\<rparr>"

definition onMouseDown :: "real \<Rightarrow> real \<Rightarrow> orbit \<Rightarrow> orbit" where
  "onMouseDown clientX clientY c = c\<lparr>isDragging := True, prevMouse := (clientX, clientY)\<rparr>"

definition onMouseUp :: "orbit \<Rightarrow> orbit" where
  "onMouseUp c = c\<lparr>isDragging := False\<rparr>"

definition onMouseMove :: "real \<Rightarrow> real \<Rightarrow> orbit \<Rightarrow> orbit" where
  "onMouseMove clientX clientY c =
     (if \<not> isDragging c then c
      else
        let dx = clientX - fst (prevMouse c);
            dy = clientY - snd (prevMouse c);
            th = theta c - dx * 0.008;
            ph = max 0.1 (min (pi - 0.1) (phi c + dy * 0.008))
        in c\<lparr>theta := th, phi := ph, prevMouse := (clientX, clientY),
              position := (radius c * sin ph * sin th, radius c * cos ph, radius c * sin ph * cos th),
              lookAt := Some (0, 0, 0)\<rparr>)"

text \<open>
  \<^verbatim>\<open>Vector3.setLength(l)\<close> of three.js is \<^verbatim>\<open>normalize().multiplyScalar(l)\<close>, and
  \<^verbatim>\<open>normalize\<close> divides by \<^verbatim>\<open>length() || 1\<close>.
\<close>

definition setLength :: "vec3 \<Rightarrow> real \<Rightarrow> vec3" where
  "setLength v l =
     (case v of (x, y, z) \<Rightarrow>
        let n = sqrt (x * x + y * y + z * z);
            d = (if n = 0 then 1 else n)
        in (x / d * l, y / d * l, z / d * l))"

definition onWheel :: "real \<Rightarrow> orbit \<Rightarrow> orbit" where
  "onWheel deltaY c =
     (let r = max 1.2 (min 8 (radius c + deltaY * 0.004))
      in c\<lparr>radius := r, position := setLength (position c) r\<rparr>)"

section \<open>Data received from the backend\<close>

text \<open>
  A value produced by \<^verbatim>\<open>Response.json()\<close>, and \<^verbatim>\<open>undefined\<close> for a property that is
  read but absent. An object is the list of its own properties.
\<close>

datatype jsval =
  JUndefined
  | JNull
  | JBool bool
  | JNum real
  | JStr string
  | JArr "jsval list"
  | JObj "(string \<times> jsval) list"

text \<open>
  What the network answers to one \<^verbatim>\<open>fetch\<close>: the promise is rejected (no connection),
  or it resolves with an HTTP status and a body; the body parses as JSON (\<open>Some\<close>) or
  does not (\<open>None\<close>).
\<close>

datatype response = Rejected | Resolved nat "jsval option"

datatype js_error = FetchFailed | SyntaxError | TypeError

text \<open>
  \<^verbatim>\<open>await fetch(url).then(x => x.json())\<close>: the value the \<^verbatim>\<open>await\<close> yields, or the
  exception it throws. The status of the response is never read.
\<close>

fun fetch_json :: "response \<Rightarrow> js_error + jsval" where
  "fetch_json Rejected = Inl FetchFailed"
| "fetch_json (Resolved status None) = Inl SyntaxError"
| "fetch_json (Resolved status (Some v)) = Inr v"

text \<open>
  \<^verbatim>\<open>p.x\<close>, \<^verbatim>\<open>p.y\<close>, \<^verbatim>\<open>p.z\<close> for a parsed value \<open>p\<close>: an object gives its own
  property or \<^verbatim>\<open>undefined\<close>; numbers, strings, booleans and arrays have no property of
  these three names; reading a property of \<^verbatim>\<open>null\<close> or \<^verbatim>\<open>undefined\<close> throws.
\<close>

fun own_property :: "jsval \<Rightarrow> string \<Rightarrow> jsval" where
  "own_property (JObj kvs) k = (case map_of kvs k of Some v \<Rightarrow> v | None \<Rightarrow> JUndefined)"
| "own_property v k = JUndefined"

fun coord :: "jsval \<Rightarrow> string \<Rightarrow> js_error + jsval" where
  "coord JNull k = Inl TypeError"
| "coord JUndefined k = Inl TypeError"
| "coord v k = Inr (own_property v k)"

text \<open>The callback \<^verbatim>\<open>p => [p.x, p.y, p.z]\<close>.\<close>

definition xyz :: "jsval \<Rightarrow> js_error + jsval list" where
  "xyz p =
     (case coord p ''x'' of Inl e \<Rightarrow> Inl e | Inr a \<Rightarrow>
      (case coord p ''y'' of Inl e \<Rightarrow> Inl e | Inr b \<Rightarrow>
       (case coord p ''z'' of Inl e \<Rightarrow> Inl e | Inr c \<Rightarrow> Inr [a, b, c])))"

text \<open>
  \<^verbatim>\<open>Array.prototype.flatMap\<close> with that callback: the three-element arrays are
  concatenated (one level is flattened), and the first callback that throws ends it.
\<close>

fun flatMap_xyz :: "jsval list \<Rightarrow> js_error + jsval list" where
  "flatMap_xyz [] = Inr []"
| "flatMap_xyz (p # ps) =
     (case xyz p of Inl e \<Rightarrow> Inl e | Inr t \<Rightarrow>
      (case flatMap_xyz ps of Inl e \<Rightarrow> Inl e | Inr r \<Rightarrow> Inr (t @ r)))"

text \<open>
  \<^verbatim>\<open>rawPoints.flatMap(p => [p.x, p.y, p.z])\<close>: only an array has \<^verbatim>\<open>flatMap\<close>; on any
  other parsed value the call throws a TypeError.
\<close>

fun rawPoints_flatMap :: "jsval \<Rightarrow> js_error + jsval list" where
  "rawPoints_flatMap (JArr ps) = flatMap_xyz ps"
| "rawPoints_flatMap v = Inl TypeError"

text \<open>
  \<^verbatim>\<open>new Float32Array(array)\<close> converts every element with \<^verbatim>\<open>ToNumber\<close>. For a parsed
  value the conversion throws a TypeError in one case only: an object is converted
  through its \<^verbatim>\<open>valueOf\<close> and \<^verbatim>\<open>toString\<close> methods, the inherited \<^verbatim>\<open>valueOf\<close> returns
  the object itself, and an own property named \<^verbatim>\<open>toString\<close> (never callable in parsed
  JSON) hides the inherited method. An array is converted through \<^verbatim>\<open>join\<close>, which
  converts its elements in the same way, except \<^verbatim>\<open>null\<close>. Every other value converts to
  a number or to NaN.
\<close>

fun ToNumber_throws :: "jsval \<Rightarrow> bool" where
  "ToNumber_throws (JObj kvs) = (''toString'' \<in> set (map fst kvs))"
| "ToNumber_throws (JArr vs) = list_ex ToNumber_throws vs"
| "ToNumber_throws v = False"

text \<open>
  The typed array built from a list of values: the single-precision number stored for a
  value that converts is given by the parameter \<open>f32\<close>.
\<close>

definition Float32Array_from :: "(jsval \<Rightarrow> 'f) \<Rightarrow> jsval list \<Rightarrow> js_error + 'f list" where
  "Float32Array_from f32 vs =
     (if list_ex ToNumber_throws vs then Inl TypeError else Inr (map f32 vs))"

text \<open>Line 144: \<^verbatim>\<open>new Float32Array(rawPoints.flatMap(p => [p.x, p.y, p.z]))\<close>.\<close>

definition build_positions :: "(jsval \<Rightarrow> 'f) \<Rightarrow> jsval \<Rightarrow> js_error + 'f list" where
  "build_positions f32 rawPoints =
     (case rawPoints_flatMap rawPoints of
        Inl e \<Rightarrow> Inl e
      | Inr flat \<Rightarrow> Float32Array_from f32 flat)"

section \<open>The colour table (App.jsx, lines 4--15)\<close>

definition SHAPES :: "string list" where
  "SHAPES = [''sphere'', ''torus'', ''plane'', ''helix'', ''cylinder'', ''cube'', ''octahedron'']"

definition COLORS :: "(string \<times> string) list" where
  "COLORS =
     [(''sphere'', ''#00e5ff''),
      (''torus'', ''#ff6b6b''),
      (''plane'', ''#69ff47''),
      (''helix'', ''#ffd600''),
      (''cylinder'', ''#ff3d00''),
      (''cube'', ''#40c4ff''),
      (''random'', ''#f040f1''),
      (''octahedron'', ''#7c4dff'')]"

text \<open>
  \<^verbatim>\<open>COLORS\<close> is an object literal, so \<^verbatim>\<open>COLORS[name]\<close> also finds the members it
  inherits from \<^verbatim>\<open>Object.prototype\<close>; each of them is a function or an object.
\<close>

definition Object_prototype_keys :: "string list" where
  "Object_prototype_keys =
     [''constructor'', ''__proto__'', ''hasOwnProperty'', ''isPrototypeOf'',
      ''propertyIsEnumerable'', ''toLocaleString'', ''toString'', ''valueOf'',
      ''__defineGetter__'', ''__defineSetter__'', ''__lookupGetter__'', ''__lookupSetter__'']"

datatype colour_arg = Style string | Inherited_member string

text \<open>\<^verbatim>\<open>COLORS[shapeName] || "#ffffff"\<close>: every value that is found is truthy.\<close>

definition colour_or_white :: "string \<Rightarrow> colour_arg" where
  "colour_or_white shapeName =
     (case map_of COLORS shapeName of
        Some c \<Rightarrow> Style c
      | None \<Rightarrow>
          if shapeName \<in> set Object_prototype_keys then Inherited_member shapeName
          else Style ''#ffffff'')"

text \<open>
  \<^verbatim>\<open>new THREE.Color(v)\<close> starts white and sets itself from \<open>v\<close> only when \<open>v\<close> is a
  colour, a number or a string. A colour is written here as its style string.
\<close>

fun THREE_Color :: "colour_arg \<Rightarrow> string" where
  "THREE_Color (Style c) = c"
| "THREE_Color (Inherited_member k) = ''#ffffff''"

section \<open>Viewer session and scene (App.jsx, lines 17--27 and 124--167)\<close>

text \<open>
  A \<^verbatim>\<open>THREE.Points\<close> object with its geometry and its material. The position buffer is
  a \<^verbatim>\<open>Float32Array\<close>; its elements have the type \<open>'f\<close>, and the conversion of a
  JavaScript value to the single-precision number the typed array stores is a parameter
  \<open>f32\<close> of the functions below.
\<close>

record 'f points_obj =
  positions :: "'f list"
  itemSize :: nat
  colour :: string
  point_size :: real
  sizeAttenuation :: bool
  transparent :: bool
  opacity :: real
  geometry_disposed :: bool
  material_disposed :: bool

datatype node = GridHelper | AxesHelper | Points nat

text \<open>
  A call of \<^verbatim>\<open>loadShape\<close> is suspended at each of its two \<^verbatim>\<open>await\<close>s; in between,
  other handlers run. A suspended call is a task: at the first \<^verbatim>\<open>await\<close> it holds
  \<^verbatim>\<open>shapeName\<close>, at the second also \<^verbatim>\<open>rawPoints\<close>.
\<close>

datatype task = AwaitPoints string | AwaitStats string jsval

text \<open>The side effects of the handlers, in the order in which they happen.\<close>

datatype effect =
  SetShape string
  | SetLoading bool
  | SetError "string option"
  | FetchIssued string
  | FetchSettled string
  | SetStats jsval
  | SceneRemove nat
  | DisposeGeometry nat
  | DisposeMaterial nat
  | NewGeometry
  | NewMaterial string
  | NewPoints nat
  | SceneAdd nat
  | SetPointsRef nat

text \<open>
  The React state (\<open>shape\<close>, \<open>stats\<close>, \<open>loading\<close>, \<open>error\<close>), \<^verbatim>\<open>pointsRef.current\<close>, the
  children of the scene, the objects allocated so far, the suspended calls of
  \<^verbatim>\<open>loadShape\<close>, the effects so far, and the camera controller.
\<close>

record 'f app =
  shape :: string
  stats :: jsval
  loading :: bool
  error :: "string option"
  pointsRef :: "nat option"
  scene :: "node list"
  heap :: "nat \<Rightarrow> 'f points_obj option"
  next_obj :: nat
  tasks :: "(nat \<times> task) list"
  next_task :: nat
  trace :: "effect list"
  cam :: orbit

definition points_url :: "string \<Rightarrow> string" where
  "points_url shapeName = ''shapes/'' @ shapeName @ ''.points.json''"

definition stats_url :: "string \<Rightarrow> string" where
  "stats_url shapeName = ''shapes/'' @ shapeName @ ''.stats.json''"

definition backend_message :: string where
  "backend_message = ''Could not connect to backend. Make sure FastAPI is running on :8000''"

definition drop_task :: "nat \<Rightarrow> (nat \<times> task) list \<Rightarrow> (nat \<times> task) list" where
  "drop_task t ts = filter (\<lambda>e. fst e \<noteq> t) ts"

text \<open>Lines 125--129: up to the first \<^verbatim>\<open>await\<close>.\<close>

definition loadShape_begin :: "string \<Rightarrow> 'f app \<Rightarrow> 'f app" where
  "loadShape_begin shapeName s =
     s\<lparr>loading := True, error := None,
       tasks := (next_task s, AwaitPoints shapeName) # tasks s,
       next_task := Suc (next_task s),
       trace := trace s @ [SetLoading True, SetError None, FetchIssued (points_url shapeName)]\<rparr>"

text \<open>Lines 160--164: the \<^verbatim>\<open>catch\<close> block followed by the \<^verbatim>\<open>finally\<close> block.\<close>

definition catch_finally :: "nat \<Rightarrow> 'f app \<Rightarrow> 'f app" where
  "catch_finally t s =
     s\<lparr>error := Some backend_message, loading := False,
       tasks := drop_task t (tasks s),
       trace := trace s @ [SetError (Some backend_message), SetLoading False]\<rparr>"

text \<open>Lines 162--164: the \<^verbatim>\<open>finally\<close> block after a \<^verbatim>\<open>try\<close> block that did not throw.\<close>

definition finally_only :: "nat \<Rightarrow> 'f app \<Rightarrow> 'f app" where
  "finally_only t s =
     s\<lparr>loading := False, tasks := drop_task t (tasks s),
       trace := trace s @ [SetLoading False]\<rparr>"

text \<open>Lines 129--130: the first \<^verbatim>\<open>await\<close> settles; the second fetch is issued.\<close>

definition on_points :: "nat \<Rightarrow> response \<Rightarrow> 'f app \<Rightarrow> 'f app" where
  "on_points t r s =
     (case map_of (tasks s) t of
        Some (AwaitPoints shapeName) \<Rightarrow>
          (case fetch_json r of
             Inl e \<Rightarrow> catch_finally t s
           | Inr rawPoints \<Rightarrow>
               s\<lparr>tasks := (t, AwaitStats shapeName rawPoints) # drop_task t (tasks s),
                 trace := trace s @ [FetchSettled (points_url shapeName),
                                     FetchIssued (stats_url shapeName)]\<rparr>)
      | _ \<Rightarrow> s)"

definition dispose :: "'f points_obj \<Rightarrow> 'f points_obj" where
  "dispose ob = ob\<lparr>geometry_disposed := True, material_disposed := True\<rparr>"

text \<open>Lines 137--141: the previous object leaves the scene and is disposed.\<close>

definition remove_previous :: "'f app \<Rightarrow> 'f app" where
  "remove_previous s =
     (case pointsRef s of
        None \<Rightarrow> s
      | Some old \<Rightarrow>
          s\<lparr>scene := remove1 (Points old) (scene s),
            heap := (heap s)(old := map_option dispose (heap s old)),
            trace := trace s @ [SceneRemove old, DisposeGeometry old, DisposeMaterial old]\<rparr>)"

text \<open>
  Lines 133--158, the rest of the \<^verbatim>\<open>try\<close> block: the exception thrown, if any, and
  the state reached when it is thrown or when the block ends.
\<close>

definition update_store ::
  "(jsval \<Rightarrow> 'f) \<Rightarrow> string \<Rightarrow> jsval \<Rightarrow> jsval \<Rightarrow> 'f app \<Rightarrow> js_error option \<times> 'f app" where
  "update_store f32 shapeName rawPoints statsData s =
     (let s1 = s\<lparr>stats := statsData, trace := trace s @ [SetStats statsData]\<rparr>;
          s2 = remove_previous s1;
          s3 = s2\<lparr>trace := trace s2 @ [NewGeometry]\<rparr>
      in case build_positions f32 rawPoints of
           Inl e \<Rightarrow> (Some e, s3)
         | Inr buf \<Rightarrow>
             let c = THREE_Color (colour_or_white shapeName);
                 i = next_obj s3;
                 ob = \<lparr>positions = buf, itemSize = 3, colour = c,
                       point_size = 0.012, sizeAttenuation = True, transparent = True,
                       opacity = 0.5, geometry_disposed = False, material_disposed = False\<rparr>
             in (None,
                 s3\<lparr>heap := (heap s3)(i \<mapsto> ob), next_obj := Suc i,
                    scene := scene s3 @ [Points i], pointsRef := Some i,
                    trace := trace s3 @ [NewMaterial c, NewPoints i, SceneAdd i, SetPointsRef i]\<rparr>))"

text \<open>Lines 130--164: the second \<^verbatim>\<open>await\<close> settles and the call runs to its end.\<close>

definition on_stats :: "(jsval \<Rightarrow> 'f) \<Rightarrow> nat \<Rightarrow> response \<Rightarrow> 'f app \<Rightarrow> 'f app" where
  "on_stats f32 t r s =
     (case map_of (tasks s) t of
        Some (AwaitStats shapeName rawPoints) \<Rightarrow>
          (case fetch_json r of
             Inl e \<Rightarrow> catch_finally t s
           | Inr statsData \<Rightarrow>
               (case update_store f32 shapeName rawPoints statsData
                       (s\<lparr>trace := trace s @ [FetchSettled (stats_url shapeName)]\<rparr>) of
                  (Some e, s') \<Rightarrow> catch_finally t s'
                | (None, s') \<Rightarrow> finally_only t s'))
      | _ \<Rightarrow> s)"

text \<open>
  One call of \<^verbatim>\<open>loadShape\<close> from its start to its end, with the answers of the network
  to its two fetches (the second answer is not used when the first fetch fails) and no
  other handler in between.
\<close>

definition loadShape :: "(jsval \<Rightarrow> 'f) \<Rightarrow> string \<Rightarrow> response \<Rightarrow> response \<Rightarrow> 'f app \<Rightarrow> 'f app" where
  "loadShape f32 shapeName rp rs s =
     on_stats f32 (next_task s) rs (on_points (next_task s) rp (loadShape_begin shapeName s))"

section \<open>Events (App.jsx, lines 88--91, 167, 196--223)\<close>

datatype event =
  MouseDown real real
  | MouseUp
  | MouseMove real real
  | Wheel real
  | ClickShape string
  | ClickReload
  | PointsResponse nat response
  | StatsResponse nat response

text \<open>
  The handler of each event. \<open>ClickShape n\<close> is \<^verbatim>\<open>() => { setShape(s); loadShape(s); }\<close>
  and \<open>ClickReload\<close> is \<^verbatim>\<open>() => loadShape(shape)\<close>.
\<close>

fun handle :: "(jsval \<Rightarrow> 'f) \<Rightarrow> event \<Rightarrow> 'f app \<Rightarrow> 'f app" where
  "handle f32 (MouseDown x y) s = s\<lparr>cam := onMouseDown x y (cam s)\<rparr>"
| "handle f32 MouseUp s = s\<lparr>cam := onMouseUp (cam s)\<rparr>"
| "handle f32 (MouseMove x y) s = s\<lparr>cam := onMouseMove x y (cam s)\<rparr>"
| "handle f32 (Wheel d) s = s\<lparr>cam := onWheel d (cam s)\<rparr>"
| "handle f32 (ClickShape n) s =
     loadShape_begin n (s\<lparr>shape := n, trace := trace s @ [SetShape n]\<rparr>)"
| "handle f32 ClickReload s = loadShape_begin (shape s) s"
| "handle f32 (PointsResponse t r) s = on_points t r s"
| "handle f32 (StatsResponse t r) s = on_stats f32 t r s"

fun run :: "(jsval \<Rightarrow> 'f) \<Rightarrow> event list \<Rightarrow> 'f app \<Rightarrow> 'f app" where
  "run f32 [] s = s"
| "run f32 (e # es) s = run f32 es (handle f32 e s)"

text \<open>
  The buttons of the control panel: one per entry of \<^verbatim>\<open>SHAPES\<close>, with no
  \<^verbatim>\<open>disabled\<close> attribute, and the reload button with \<^verbatim>\<open>disabled={loading}\<close>. A click
  on a disabled button runs no handler.
\<close>

record button =
  disabled :: bool
  onClick :: event

definition shape_buttons :: "'f app \<Rightarrow> button list" where
  "shape_buttons s = map (\<lambda>n. \<lparr>disabled = False, onClick = ClickShape n\<rparr>) SHAPES"

definition reload_button :: "'f app \<Rightarrow> button" where
  "reload_button s = \<lparr>disabled = loading s, onClick = ClickReload\<rparr>"

definition click :: "(jsval \<Rightarrow> 'f) \<Rightarrow> button \<Rightarrow> 'f app \<Rightarrow> 'f app" where
  "click f32 b s = (if disabled b then s else handle f32 (onClick b) s)"

text \<open>
  The state after the two mount effects: the scene holds the grid and the axes, and the
  default shape is being loaded.
\<close>

definition initial_app :: "'f app" where
  "initial_app =
     \<lparr>shape = ''sphere'', stats = JNull, loading = False, error = None, pointsRef = None,
      scene = [GridHelper, AxesHelper], heap = (\<lambda>i. None), next_obj = 0, tasks = [],
      next_task = 0, trace = [], cam = initial_orbit\<rparr>"

definition mounted :: "'f app" where
  "mounted = loadShape_begin ''sphere'' initial_app"

text \<open>The calls of \<^verbatim>\<open>loadShape\<close> that are suspended, and whether a handler ends one.\<close>

definition in_flight :: "'f app \<Rightarrow> nat list" where
  "in_flight s = map fst (tasks s)"

definition finishes :: "(jsval \<Rightarrow> 'f) \<Rightarrow> event \<Rightarrow> 'f app \<Rightarrow> bool" where
  "finishes f32 e s = list_ex (\<lambda>t. t \<notin> set (in_flight (handle f32 e s))) (in_flight s)"

fun quiet :: "(jsval \<Rightarrow> 'f) \<Rightarrow> event list \<Rightarrow> 'f app \<Rightarrow> bool" where
  "quiet f32 [] s = True"
| "quiet f32 (e # es) s = (\<not> finishes f32 e s \<and> quiet f32 es (handle f32 e s))"

text \<open>Whether an event is a pointer move or a wheel event.\<close>

fun moves_camera :: "event \<Rightarrow> bool" where
  "moves_camera (MouseMove x y) = True"
| "moves_camera (Wheel d) = True"
| "moves_camera e = False"

definition orbit_state :: "orbit \<Rightarrow> real \<times> real \<times> real \<times> vec3" where
  "orbit_state c = (theta c, phi c, radius c, position c)"

text \<open>
  Example answers of the backend: two points of a shape, a statistics record, and the
  JSON body that FastAPI sends with a 404.
\<close>

definition point :: "real \<Rightarrow> real \<Rightarrow> real \<Rightarrow> jsval" where
  "point x y z = JObj [(''x'', JNum x), (''y'', JNum y), (''z'', JNum z)]"

definition example_points :: jsval where
  "example_points = JArr [point 1 0 0, point 0 1 0.5]"

definition example_stats :: "real \<Rightarrow> jsval" where
  "example_stats n =
     JObj [(''point_count'', JNum n), (''nearest_neighbor_avg'', JNum 1.5),
           (''centroid'', point 0.5 0.5 0.25),
           (''bounding_box'', JObj [(''dimensions'', point 1 1 0.5)]),
           (''variance'', point 0.25 0.25 0.0625)]"

definition not_found :: jsval where
  "not_found = JObj [(''detail'', JStr ''Not Found'')]"

text \<open>The viewer after the default shape has been loaded.\<close>

definition loaded :: "jsval app" where
  "loaded =
     run (\<lambda>v. v)
       [PointsResponse 0 (Resolved 200 (Some example_points)),
        StatsResponse 0 (Resolved 200 (Some (example_stats 2)))]
       mounted"

text \<open>
  What the viewer shows of the loaded data: the statistics, the current render object,
  the children of the scene, and the objects themselves.
\<close>

definition store ::
  "'f app \<Rightarrow> jsval \<times> nat option \<times> node list \<times> (nat \<Rightarrow> 'f points_obj option)" where
  "store s = (stats s, pointsRef s, scene s, heap s)"

text \<open>A point on which line 144 does not throw.\<close>

definition point_converts :: "jsval \<Rightarrow> bool" where
  "point_converts p =
     (p \<noteq> JNull \<and> p \<noteq> JUndefined
      \<and> \<not> ToNumber_throws (own_property p ''x'')
      \<and> \<not> ToNumber_throws (own_property p ''y'')
      \<and> \<not> ToNumber_throws (own_property p ''z''))"

text \<open>A coordinate that is an object with an own \<^verbatim>\<open>toString\<close>.\<close>

definition bad_point :: jsval where
  "bad_point = JObj [(''x'', JObj [(''toString'', JNum 0)]), (''y'', JNum 0), (''z'', JNum 0)]"

text \<open>The position buffer and the material colour of \<^verbatim>\<open>pointsRef.current\<close>.\<close>

definition position_buffer :: "'f app \<Rightarrow> 'f list option" where
  "position_buffer s =
     (case pointsRef s of None \<Rightarrow> None | Some i \<Rightarrow> map_option positions (heap s i))"

definition current_colour :: "'f app \<Rightarrow> string option" where
  "current_colour s =
     (case pointsRef s of None \<Rightarrow> None | Some i \<Rightarrow> map_option colour (heap s i))"

text \<open>
  Two calls overlap: from the loaded viewer the user clicks ``cube'' and then ``torus'',
  and the call for the torus has run to its end while the call for the cube (call 1) is
  still waiting for its points.
\<close>

definition overlapping :: "jsval app" where
  "overlapping =
     run (\<lambda>v. v)
       [ClickShape ''cube'', ClickShape ''torus'',
        PointsResponse 2 (Resolved 200 (Some example_points)),
        StatsResponse 2 (Resolved 200 (Some (example_stats 2)))]
       loaded"

text \<open>The current render object, if there is one, has been allocated.\<close>

definition allocated :: "'f app \<Rightarrow> bool" where
  "allocated s = (\<forall>i. pointsRef s = Some i \<longrightarrow> i < next_obj s)"

text \<open>The bounds the two clamps of the camera controller keep.\<close>

definition orbit_ok :: "orbit \<Rightarrow> bool" where
  "orbit_ok c = (0.1 \<le> phi c \<and> phi c \<le> pi - 0.1 \<and> 1.2 \<le> radius c \<and> radius c \<le> 8)"

section \<open>The camera is moved by the input handlers only\<close>

lemma polar_bounds_nonempty: "(0.1::real) \<le> pi - 0.1"
  using pi_ge_two by simp

lemma onMouseMove_phi:
  "0.1 \<le> phi c \<Longrightarrow> phi c \<le> pi - 0.1 \<Longrightarrow>
   0.1 \<le> phi (onMouseMove x y c) \<and> phi (onMouseMove x y c) \<le> pi - 0.1"
  using polar_bounds_nonempty by (auto simp: onMouseMove_def Let_def max_def min_def)

lemma onMouseMove_radius: "radius (onMouseMove x y c) = radius c"
  by (simp add: onMouseMove_def Let_def)

lemma onWheel_radius: "1.2 \<le> radius (onWheel d c) \<and> radius (onWheel d c) \<le> 8"
  by (auto simp: onWheel_def Let_def max_def min_def)

lemma onWheel_phi: "phi (onWheel d c) = phi c"
  by (simp add: onWheel_def Let_def)

lemma cam_loadShape_begin: "cam (loadShape_begin n s) = cam s"
  by (simp add: loadShape_begin_def)

lemma cam_catch_finally: "cam (catch_finally t s) = cam s"
  by (simp add: catch_finally_def)

lemma cam_finally_only: "cam (finally_only t s) = cam s"
  by (simp add: finally_only_def)

lemma cam_on_points: "cam (on_points t r s) = cam s"
  by (simp add: on_points_def cam_catch_finally split: option.splits task.splits sum.splits)

lemma cam_remove_previous: "cam (remove_previous s) = cam s"
  by (simp add: remove_previous_def split: option.splits)

lemma cam_update_store: "cam (snd (update_store f32 n raw sd s)) = cam s"
  by (simp add: update_store_def cam_remove_previous Let_def split: sum.splits)

lemma cam_on_stats: "cam (on_stats f32 t r s) = cam s"
proof -
  have *: "cam s' = cam s" if "update_store f32 n raw sd (s\<lparr>trace := tr\<rparr>) = (e, s')"
    for n raw sd tr e s'
    using cam_update_store [of f32 n raw sd "s\<lparr>trace := tr\<rparr>"] that by simp
  show ?thesis
    by (auto simp: on_stats_def cam_catch_finally cam_finally_only dest: *
        split: option.splits task.splits sum.splits prod.splits)
qed

lemma cam_loadShape: "cam (loadShape f32 n rp rs s) = cam s"
  by (simp add: loadShape_def cam_on_stats cam_on_points cam_loadShape_begin)

lemma handle_orbit_ok: "orbit_ok (cam s) \<Longrightarrow> orbit_ok (cam (handle f32 e s))"
  using onMouseMove_phi [of "cam s"] onWheel_radius
  by (cases e)
    (simp_all add: orbit_ok_def cam_loadShape_begin cam_on_points cam_on_stats
      onMouseMove_radius onWheel_phi onMouseDown_def onMouseUp_def)

lemma run_orbit_ok: "orbit_ok (cam s) \<Longrightarrow> orbit_ok (cam (run f32 es s))"
  by (induction es arbitrary: s) (simp_all add: handle_orbit_ok)

lemma initial_orbit_ok: "orbit_ok (cam initial_app)"
  using pi_ge_two by (simp add: orbit_ok_def initial_app_def initial_orbit_def)

text \<open>
  Claim C2, as stated: after any sequence of drag events the polar angle is inside the
  open interval from \<open>\<epsilon>\<close> to \<open>\<pi> - \<epsilon>\<close>. With the code's \<open>\<epsilon> = 0.1\<close> this fails: pressing
  the button and moving the pointer up by 1000 pixels puts the polar angle on the bound
  itself.
\<close>

theorem polar_angle_reaches_bound:
  "phi (cam (run (\<lambda>v. v) [MouseDown 0 0, MouseMove 0 (- 1000)] initial_app)) = 0.1
   \<and> \<not> (0.1 < phi (cam (run (\<lambda>v. v) [MouseDown 0 0, MouseMove 0 (- 1000)] initial_app))
        \<and> phi (cam (run (\<lambda>v. v) [MouseDown 0 0, MouseMove 0 (- 1000)] initial_app)) < pi - 0.1)"
  using pi_less_4
  by (auto simp: initial_app_def initial_orbit_def onMouseDown_def onMouseMove_def Let_def
      max_def min_def)

text \<open>
  Claim C2, amended: after any sequence of events (pointer presses, moves and releases,
  wheel events, clicks and network answers) from the start of the viewer, the polar angle
  is in the closed interval from 0.1 to \<open>\<pi> - 0.1\<close>, hence strictly between \<open>\<epsilon>\<close> and
  \<open>\<pi> - \<epsilon>\<close> for every \<open>\<epsilon>\<close> below 0.1, and the radius is in the closed interval from
  1.2 to 8.
\<close>

theorem camera_angle_and_radius_bounds:
  "0.1 \<le> phi (cam (run f32 es initial_app))
   \<and> phi (cam (run f32 es initial_app)) \<le> pi - 0.1
   \<and> 1.2 \<le> radius (cam (run f32 es initial_app))
   \<and> radius (cam (run f32 es initial_app)) \<le> 8
   \<and> (\<forall>\<epsilon><0.1. \<epsilon> < phi (cam (run f32 es initial_app))
          \<and> phi (cam (run f32 es initial_app)) < pi - \<epsilon>)"
  using run_orbit_ok [OF initial_orbit_ok, of f32 es] by (auto simp: orbit_ok_def)

theorem camera_angle_and_radius_bounds_witness:
  "0.1 \<le> phi (cam (run (\<lambda>v. v) [MouseDown 0 0, MouseMove 3 900, Wheel 5000] initial_app))
   \<and> phi (cam (run (\<lambda>v. v) [MouseDown 0 0, MouseMove 3 900, Wheel 5000] initial_app)) \<le> pi - 0.1
   \<and> 1.2 \<le> radius (cam (run (\<lambda>v. v) [MouseDown 0 0, MouseMove 3 900, Wheel 5000] initial_app))
   \<and> radius (cam (run (\<lambda>v. v) [MouseDown 0 0, MouseMove 3 900, Wheel 5000] initial_app)) \<le> 8
   \<and> 0.05 < phi (cam (run (\<lambda>v. v) [MouseDown 0 0, MouseMove 3 900, Wheel 5000] initial_app))
   \<and> phi (cam (run (\<lambda>v. v) [MouseDown 0 0, MouseMove 3 900, Wheel 5000] initial_app)) < pi - 0.05"
  using camera_angle_and_radius_bounds
    [of "\<lambda>v. v" "[MouseDown 0 0, MouseMove 3 900, Wheel 5000]"]
  by auto

text \<open>The upper bound of the polar angle is attained as well.\<close>

lemma polar_angle_reaches_upper_bound:
  "phi (cam (run (\<lambda>v. v) [MouseDown 0 0, MouseMove 0 1000] initial_app)) = pi - 0.1"
  using pi_less_4 pi_ge_two
  by (auto simp: initial_app_def initial_orbit_def onMouseDown_def onMouseMove_def Let_def
      max_def min_def)

lemma sphere_point:
  "(r * sin p * sin t)\<^sup>2 + (r * cos p)\<^sup>2 + (r * sin p * cos t)\<^sup>2 = (r::real)\<^sup>2"
proof -
  have one: "(sin a)\<^sup>2 + (cos a)\<^sup>2 = (1::real)" for a
    by simp
  have h1: "(r * sin p * sin t)\<^sup>2 + (r * sin p * cos t)\<^sup>2
      = (r * sin p)\<^sup>2 * ((sin t)\<^sup>2 + (cos t)\<^sup>2)"
    by (simp only: power_mult_distrib distrib_left)
  have eq1: "(r * sin p * sin t)\<^sup>2 + (r * sin p * cos t)\<^sup>2 = (r * sin p)\<^sup>2"
    by (simp only: h1 one mult_1_right)
  have h2: "(r * sin p)\<^sup>2 + (r * cos p)\<^sup>2 = r\<^sup>2 * ((sin p)\<^sup>2 + (cos p)\<^sup>2)"
    by (simp only: power_mult_distrib distrib_left)
  have eq2: "(r * sin p)\<^sup>2 + (r * cos p)\<^sup>2 = r\<^sup>2"
    by (simp only: h2 one mult_1_right)
  from eq1 eq2 show ?thesis by linarith
qed

text \<open>
  Claim C7: while dragging, a pointer move to \<open>(x, y)\<close>, that is a delta
  \<open>(dx, dy) = (x, y) - prevMouse\<close>, changes the azimuth by the sensitivity 0.008 times
  \<open>dx\<close> (it is subtracted), changes the polar angle by 0.008 times \<open>dy\<close> (it is added) and
  clamps it between 0.1 and \<open>\<pi> - 0.1\<close>, puts the camera at the point with the current
  radius, the new azimuth and the new polar angle on the sphere around the origin, and
  aims the camera at the origin.
\<close>

theorem drag_move_updates_camera:
  assumes "isDragging c"
  shows "theta (onMouseMove x y c) = theta c - 0.008 * (x - fst (prevMouse c))
    \<and> phi (onMouseMove x y c)
        = max 0.1 (min (pi - 0.1) (phi c + 0.008 * (y - snd (prevMouse c))))
    \<and> radius (onMouseMove x y c) = radius c
    \<and> position (onMouseMove x y c) =
        (radius c * sin (phi (onMouseMove x y c)) * sin (theta (onMouseMove x y c)),
         radius c * cos (phi (onMouseMove x y c)),
         radius c * sin (phi (onMouseMove x y c)) * cos (theta (onMouseMove x y c)))
    \<and> (case position (onMouseMove x y c) of
          (px, py, pz) \<Rightarrow> px\<^sup>2 + py\<^sup>2 + pz\<^sup>2 = (radius c)\<^sup>2)
    \<and> lookAt (onMouseMove x y c) = Some (0, 0, 0)
    \<and> prevMouse (onMouseMove x y c) = (x, y)
    \<and> isDragging (onMouseMove x y c)"
proof -
  have pos: "position (onMouseMove x y c) =
        (radius c * sin (phi (onMouseMove x y c)) * sin (theta (onMouseMove x y c)),
         radius c * cos (phi (onMouseMove x y c)),
         radius c * sin (phi (onMouseMove x y c)) * cos (theta (onMouseMove x y c)))"
    using assms by (simp add: onMouseMove_def Let_def)
  have "case position (onMouseMove x y c) of
          (px, py, pz) \<Rightarrow> px\<^sup>2 + py\<^sup>2 + pz\<^sup>2 = (radius c)\<^sup>2"
    unfolding pos using sphere_point [of "radius c"] by simp
  moreover have "theta (onMouseMove x y c) = theta c - 0.008 * (x - fst (prevMouse c))"
    using assms by (simp add: onMouseMove_def Let_def)
  moreover have "phi (onMouseMove x y c)
      = max 0.1 (min (pi - 0.1) (phi c + 0.008 * (y - snd (prevMouse c))))"
    using assms by (simp add: onMouseMove_def Let_def)
  moreover have "radius (onMouseMove x y c) = radius c
      \<and> lookAt (onMouseMove x y c) = Some (0, 0, 0)
      \<and> prevMouse (onMouseMove x y c) = (x, y) \<and> isDragging (onMouseMove x y c)"
    using assms by (simp add: onMouseMove_def Let_def)
  ultimately show ?thesis using pos by blast
qed

theorem drag_move_updates_camera_witness:
  "isDragging (onMouseDown 0 0 initial_orbit)
   \<and> theta (onMouseMove 10 5 (onMouseDown 0 0 initial_orbit)) = - 0.08
   \<and> phi (onMouseMove 10 5 (onMouseDown 0 0 initial_orbit)) = pi / 2 + 0.04
   \<and> lookAt (onMouseMove 10 5 (onMouseDown 0 0 initial_orbit)) = Some (0, 0, 0)"
proof -
  have d: "isDragging (onMouseDown 0 0 initial_orbit)"
    by (simp add: onMouseDown_def)
  have "max 0.1 (min (pi - 0.1) (pi / 2 + 0.04)) = pi / 2 + (0.04::real)"
    using pi_ge_two by (simp add: max_def min_def)
  with drag_move_updates_camera [OF d, of 10 5] d show ?thesis
    by (simp add: onMouseDown_def initial_orbit_def)
qed

text \<open>
  Claim C8: a call of \<^verbatim>\<open>loadShape\<close>, successful or failed, leaves the camera controller
  (azimuth, polar angle, radius, camera position, and the rest of its state) as it was,
  at each of its steps and as a whole; and every handler other than the pointer-move
  and the wheel handler leaves azimuth, polar angle, radius and camera position as they
  were.
\<close>

theorem loadShape_keeps_camera:
  "cam (loadShape f32 n rp rs s) = cam s
   \<and> cam (loadShape_begin n s) = cam s
   \<and> cam (on_points t rp s) = cam s
   \<and> cam (on_stats f32 t rs s) = cam s
   \<and> (\<not> moves_camera e \<longrightarrow> orbit_state (cam (handle f32 e s)) = orbit_state (cam s))"
proof -
  have "orbit_state (cam (handle f32 e s)) = orbit_state (cam s)" if "\<not> moves_camera e"
    using that
    by (cases e)
      (simp_all add: orbit_state_def onMouseDown_def onMouseUp_def cam_loadShape_begin
        cam_on_points cam_on_stats)
  then show ?thesis
    by (simp add: cam_loadShape cam_loadShape_begin cam_on_points cam_on_stats)
qed

theorem loadShape_keeps_camera_witness:
  "cam (loadShape (\<lambda>v. v) ''cube'' (Resolved 200 (Some example_points)) Rejected loaded)
     = cam loaded
   \<and> \<not> moves_camera (ClickShape ''torus'')
   \<and> orbit_state (cam (handle (\<lambda>v. v) (ClickShape ''torus'') loaded))
     = orbit_state (cam loaded)"
  using loadShape_keeps_camera [where ?f32.0 = "\<lambda>v. v" and n = "''cube''"
      and rp = "Resolved 200 (Some example_points)" and rs = Rejected and s = loaded
      and e = "ClickShape ''torus''"]
  by simp

section \<open>Loading a shape\<close>

lemmas viewer_defs =
  loaded_def mounted_def initial_app_def loadShape_def loadShape_begin_def on_points_def
  on_stats_def update_store_def remove_previous_def catch_finally_def finally_only_def
  drop_task_def example_points_def example_stats_def point_def not_found_def xyz_def Let_def
  colour_or_white_def COLORS_def Object_prototype_keys_def points_url_def stats_url_def
  dispose_def build_positions_def Float32Array_from_def bad_point_def

lemma map_of_drop_task: "map_of (drop_task t ts) t = None"
  by (induction ts) (auto simp: drop_task_def)

lemma drop_task_Cons_same: "drop_task t ((t, x) # ts) = drop_task t ts"
  by (simp add: drop_task_def)

lemmas load_defs =
  loadShape_def loadShape_begin_def on_points_def on_stats_def catch_finally_def
  finally_only_def map_of_drop_task

subsection \<open>Steps that fail at a fetch\<close>

lemma store_loadShape_begin: "store (loadShape_begin n s) = store s"
  by (simp add: store_def loadShape_begin_def)

lemma store_catch_finally: "store (catch_finally t s) = store s"
  by (simp add: store_def catch_finally_def)

lemma store_on_points: "store (on_points t r s) = store s"
  by (simp add: on_points_def store_catch_finally split: option.splits task.splits sum.splits)
    (simp add: store_def)

lemma on_points_failed:
  "map_of (tasks s) t = Some (AwaitPoints n) \<Longrightarrow> isl (fetch_json rp) \<Longrightarrow>
   on_points t rp s = catch_finally t s"
  by (cases "fetch_json rp") (simp_all add: on_points_def)

lemma on_stats_failed:
  "map_of (tasks s) t = Some (AwaitStats n raw) \<Longrightarrow> isl (fetch_json rs) \<Longrightarrow>
   on_stats f32 t rs s = catch_finally t s"
  by (cases "fetch_json rs") (simp_all add: on_stats_def)

lemma store_on_stats_failed: "isl (fetch_json rs) \<Longrightarrow> store (on_stats f32 t rs s) = store s"
proof (cases "map_of (tasks s) t")
  case None
  then show ?thesis by (simp add: on_stats_def)
next
  case (Some a)
  assume f: "isl (fetch_json rs)"
  show ?thesis
  proof (cases a)
    case (AwaitPoints n)
    with Some show ?thesis by (simp add: on_stats_def)
  next
    case (AwaitStats n raw)
    with Some f show ?thesis
      by (simp add: on_stats_failed store_catch_finally)
  qed
qed

lemma loadShape_failed_fetch:
  assumes "isl (fetch_json rp) \<or> isl (fetch_json rs)"
  shows "stats (loadShape f32 n rp rs s) = stats s
    \<and> pointsRef (loadShape f32 n rp rs s) = pointsRef s
    \<and> scene (loadShape f32 n rp rs s) = scene s
    \<and> heap (loadShape f32 n rp rs s) = heap s
    \<and> shape (loadShape f32 n rp rs s) = shape s
    \<and> cam (loadShape f32 n rp rs s) = cam s
    \<and> error (loadShape f32 n rp rs s) = Some backend_message
    \<and> \<not> loading (loadShape f32 n rp rs s)"
proof (cases "fetch_json rp")
  case (Inl e)
  then show ?thesis by (simp add: load_defs)
next
  case (Inr raw)
  with assms obtain e where "fetch_json rs = Inl e"
    by (cases "fetch_json rs") auto
  with Inr show ?thesis by (simp add: load_defs)
qed

lemma overlapping_task: "map_of (tasks overlapping) 1 = Some (AwaitPoints ''cube'')"
  by (simp add: overlapping_def viewer_defs)

text \<open>
  Claim C1, as stated: whenever a call of \<^verbatim>\<open>loadShape\<close> fails, the statistics and the
  attached point cloud are as before the call. This fails when the body of the points
  resource is JSON but not an array of points, here the body FastAPI sends with a 404:
  the \<^verbatim>\<open>catch\<close> block runs and sets the error, but \<^verbatim>\<open>setStats\<close> has already been
  called with the new statistics and the previous point cloud has already been removed
  from the scene.
\<close>

theorem failed_load_changes_stats_and_scene:
  "error (loadShape (\<lambda>v. v) ''cube'' (Resolved 404 (Some not_found))
            (Resolved 200 (Some (example_stats 3))) loaded) = Some backend_message
   \<and> stats (loadShape (\<lambda>v. v) ''cube'' (Resolved 404 (Some not_found))
            (Resolved 200 (Some (example_stats 3))) loaded) \<noteq> stats loaded
   \<and> scene (loadShape (\<lambda>v. v) ''cube'' (Resolved 404 (Some not_found))
            (Resolved 200 (Some (example_stats 3))) loaded) \<noteq> scene loaded"
  by (simp add: viewer_defs)

text \<open>
  Claim C1, amended: when a call of \<^verbatim>\<open>loadShape\<close> fails because one of its two fetches
  is rejected or answers with a body that is not JSON, no step of the call changes the
  statistics, the current render object, the scene or the objects: the start of a call
  and the answer to its first fetch never change them, and neither does a failing
  answer to its second fetch. The failing step sets the error to the fixed backend
  message, clears the loading flag and ends the call, and changes nothing else. In
  particular, a call that fails in this way with no other handler in between leaves
  the statistics, the render object, the scene, the objects, the selection and the
  camera as they were before the call.
\<close>

theorem failed_fetch_keeps_stats_and_scene:
  "store (loadShape_begin n s) = store s
   \<and> store (on_points t rp s) = store s
   \<and> (isl (fetch_json rs) \<longrightarrow> store (on_stats f32 t rs s) = store s)
   \<and> (map_of (tasks s) t = Some (AwaitPoints n) \<and> isl (fetch_json rp) \<longrightarrow>
        on_points t rp s =
          s\<lparr>error := Some backend_message, loading := False,
            tasks := drop_task t (tasks s),
            trace := trace s @ [SetError (Some backend_message), SetLoading False]\<rparr>)
   \<and> (map_of (tasks s) t = Some (AwaitStats n raw) \<and> isl (fetch_json rs) \<longrightarrow>
        on_stats f32 t rs s =
          s\<lparr>error := Some backend_message, loading := False,
            tasks := drop_task t (tasks s),
            trace := trace s @ [SetError (Some backend_message), SetLoading False]\<rparr>)
   \<and> (isl (fetch_json rp) \<or> isl (fetch_json rs) \<longrightarrow>
        stats (loadShape f32 n rp rs s) = stats s
        \<and> pointsRef (loadShape f32 n rp rs s) = pointsRef s
        \<and> scene (loadShape f32 n rp rs s) = scene s
        \<and> heap (loadShape f32 n rp rs s) = heap s
        \<and> shape (loadShape f32 n rp rs s) = shape s
        \<and> cam (loadShape f32 n rp rs s) = cam s
        \<and> error (loadShape f32 n rp rs s) = Some backend_message
        \<and> \<not> loading (loadShape f32 n rp rs s))"
  using on_points_failed [of s t n rp] on_stats_failed [of s t n raw rs f32]
    loadShape_failed_fetch [of rp rs f32 n s]
  by (simp add: store_loadShape_begin store_on_points store_on_stats_failed catch_finally_def)

theorem failed_fetch_keeps_stats_and_scene_witness:
  "map_of (tasks overlapping) 1 = Some (AwaitPoints ''cube'')
   \<and> isl (fetch_json Rejected)
   \<and> store (on_points 1 Rejected overlapping) = store overlapping
   \<and> error (on_points 1 Rejected overlapping) = Some backend_message
   \<and> \<not> loading (on_points 1 Rejected overlapping)
   \<and> stats (loadShape (\<lambda>v. v) ''cube'' (Resolved 200 (Some example_points))
              (Resolved 500 None) loaded) = stats loaded
   \<and> error (loadShape (\<lambda>v. v) ''cube'' (Resolved 200 (Some example_points))
              (Resolved 500 None) loaded) = Some backend_message"
proof -
  have r: "isl (fetch_json Rejected)" by simp
  have h: "isl (fetch_json (Resolved 200 (Some example_points)))
      \<or> isl (fetch_json (Resolved 500 None))"
    by simp
  note c1 = failed_fetch_keeps_stats_and_scene [where s = overlapping and t = 1 and n = "''cube''" and rp = Rejected
      and rs = Rejected and ?f32.0 = "\<lambda>v. v"]
  note c2 = failed_fetch_keeps_stats_and_scene [where s = loaded and n = "''cube''" and ?f32.0 = "\<lambda>v. v"
      and rp = "Resolved 200 (Some example_points)" and rs = "Resolved 500 None"]
  from c1 overlapping_task r
  have e: "on_points 1 Rejected overlapping =
      overlapping\<lparr>error := Some backend_message, loading := False,
        tasks := drop_task 1 (tasks overlapping),
        trace := trace overlapping @ [SetError (Some backend_message), SetLoading False]\<rparr>"
    by blast
  have "error (on_points 1 Rejected overlapping) = Some backend_message
      \<and> \<not> loading (on_points 1 Rejected overlapping)"
    unfolding e by simp
  moreover from c1 have "store (on_points 1 Rejected overlapping) = store overlapping"
    by blast
  moreover from c2 h have "stats (loadShape (\<lambda>v. v) ''cube'' (Resolved 200 (Some example_points))
              (Resolved 500 None) loaded) = stats loaded
   \<and> error (loadShape (\<lambda>v. v) ''cube'' (Resolved 200 (Some example_points))
              (Resolved 500 None) loaded) = Some backend_message"
    by blast
  ultimately show ?thesis using overlapping_task r by blast
qed

subsection \<open>The step that updates the store\<close>

lemma trace_remove_previous:
  "trace (remove_previous s) = trace s @
     (case pointsRef s of
        None \<Rightarrow> []
      | Some old \<Rightarrow> [SceneRemove old, DisposeGeometry old, DisposeMaterial old])"
  by (simp add: remove_previous_def split: option.splits)

lemma next_obj_remove_previous: "next_obj (remove_previous s) = next_obj s"
  by (simp add: remove_previous_def split: option.splits)

lemma scene_remove_previous:
  "scene (remove_previous s) =
     (case pointsRef s of None \<Rightarrow> scene s | Some old \<Rightarrow> remove1 (Points old) (scene s))"
  by (simp add: remove_previous_def split: option.splits)

lemma heap_remove_previous:
  "heap (remove_previous s) i =
     (if pointsRef s = Some i then map_option dispose (heap s i) else heap s i)"
  by (simp add: remove_previous_def split: option.splits)

lemma remove_previous_fields:
  "stats (remove_previous s) = stats s"
  "tasks (remove_previous s) = tasks s"
  "error (remove_previous s) = error s"
  "loading (remove_previous s) = loading s"
  by (simp_all add: remove_previous_def split: option.splits)

lemma update_store_success:
  assumes "build_positions f32 raw = Inr buf"
  shows "fst (update_store f32 n raw sd s) = None"
    and "trace (snd (update_store f32 n raw sd s)) = trace s @ [SetStats sd] @
      (case pointsRef s of
         None \<Rightarrow> []
       | Some old \<Rightarrow> [SceneRemove old, DisposeGeometry old, DisposeMaterial old]) @
      [NewGeometry, NewMaterial (THREE_Color (colour_or_white n)), NewPoints (next_obj s),
       SceneAdd (next_obj s), SetPointsRef (next_obj s)]"
    and "stats (snd (update_store f32 n raw sd s)) = sd"
    and "pointsRef (snd (update_store f32 n raw sd s)) = Some (next_obj s)"
    and "scene (snd (update_store f32 n raw sd s)) =
      (case pointsRef s of None \<Rightarrow> scene s | Some old \<Rightarrow> remove1 (Points old) (scene s))
      @ [Points (next_obj s)]"
    and "heap (snd (update_store f32 n raw sd s)) (next_obj s) =
      Some \<lparr>positions = buf, itemSize = 3, colour = THREE_Color (colour_or_white n),
            point_size = 0.012, sizeAttenuation = True, transparent = True,
            opacity = 0.5, geometry_disposed = False, material_disposed = False\<rparr>"
    and "tasks (snd (update_store f32 n raw sd s)) = tasks s"
    and "error (snd (update_store f32 n raw sd s)) = error s"
  using assms
  by (simp_all add: update_store_def Let_def trace_remove_previous next_obj_remove_previous
      scene_remove_previous heap_remove_previous remove_previous_fields split: option.splits)

lemma update_store_success_others:
  assumes "build_positions f32 raw = Inr buf" "i \<noteq> next_obj s"
  shows "heap (snd (update_store f32 n raw sd s)) i =
      (if pointsRef s = Some i then map_option dispose (heap s i) else heap s i)"
  using assms
  by (simp add: update_store_def Let_def next_obj_remove_previous heap_remove_previous)

lemma on_stats_fetched:
  assumes "map_of (tasks s) t = Some (AwaitStats n raw)" "fetch_json rs = Inr sd"
  shows "on_stats f32 t rs s =
    (case update_store f32 n raw sd (s\<lparr>trace := trace s @ [FetchSettled (stats_url n)]\<rparr>) of
       (Some e, s') \<Rightarrow> catch_finally t s'
     | (None, s') \<Rightarrow> finally_only t s')"
  using assms by (simp add: on_stats_def)

lemma on_stats_success:
  assumes "map_of (tasks s) t = Some (AwaitStats n raw)" "fetch_json rs = Inr sd"
    and "build_positions f32 raw = Inr buf"
  shows "on_stats f32 t rs s =
    finally_only t
      (snd (update_store f32 n raw sd (s\<lparr>trace := trace s @ [FetchSettled (stats_url n)]\<rparr>)))"
proof -
  let ?s = "s\<lparr>trace := trace s @ [FetchSettled (stats_url n)]\<rparr>"
  obtain s' where "update_store f32 n raw sd ?s = (None, s')"
    using update_store_success(1) [OF assms(3), where n = n and sd = sd and s = ?s]
    by (cases "update_store f32 n raw sd ?s") auto
  then show ?thesis
    by (simp add: on_stats_fetched [OF assms(1,2)])
qed

lemma on_stats_success_fields:
  assumes "map_of (tasks s) t = Some (AwaitStats n raw)" "fetch_json rs = Inr sd"
    and "build_positions f32 raw = Inr buf"
  shows "trace (on_stats f32 t rs s) =
      trace s @ [FetchSettled (stats_url n), SetStats sd] @
      (case pointsRef s of
         None \<Rightarrow> []
       | Some old \<Rightarrow> [SceneRemove old, DisposeGeometry old, DisposeMaterial old]) @
      [NewGeometry, NewMaterial (THREE_Color (colour_or_white n)), NewPoints (next_obj s),
       SceneAdd (next_obj s), SetPointsRef (next_obj s), SetLoading False]"
    and "stats (on_stats f32 t rs s) = sd"
    and "pointsRef (on_stats f32 t rs s) = Some (next_obj s)"
    and "scene (on_stats f32 t rs s) =
      (case pointsRef s of None \<Rightarrow> scene s | Some old \<Rightarrow> remove1 (Points old) (scene s))
      @ [Points (next_obj s)]"
    and "heap (on_stats f32 t rs s) (next_obj s) =
      Some \<lparr>positions = buf, itemSize = 3, colour = THREE_Color (colour_or_white n),
            point_size = 0.012, sizeAttenuation = True, transparent = True,
            opacity = 0.5, geometry_disposed = False, material_disposed = False\<rparr>"
    and "error (on_stats f32 t rs s) = error s"
    and "\<not> loading (on_stats f32 t rs s)"
    and "t \<notin> set (in_flight (on_stats f32 t rs s))"
  using update_store_success(2-8) [OF assms(3), where n = n and sd = sd
      and s = "s\<lparr>trace := trace s @ [FetchSettled (stats_url n)]\<rparr>"]
  by (auto simp: on_stats_success [OF assms] finally_only_def in_flight_def drop_task_def
      cong: option.case_cong)

lemma on_stats_success_others:
  assumes "map_of (tasks s) t = Some (AwaitStats n raw)" "fetch_json rs = Inr sd"
    and "build_positions f32 raw = Inr buf" and "i \<noteq> next_obj s"
  shows "heap (on_stats f32 t rs s) i =
      (if pointsRef s = Some i then map_option dispose (heap s i) else heap s i)"
  using update_store_success_others [OF assms(3), where n = n and sd = sd and i = i
      and s = "s\<lparr>trace := trace s @ [FetchSettled (stats_url n)]\<rparr>"] assms(4)
  by (simp add: on_stats_success [OF assms(1-3)] finally_only_def)

text \<open>The state of an uninterrupted call at its second \<^verbatim>\<open>await\<close>.\<close>

lemma awaiting_stats:
  assumes "fetch_json rp = Inr raw"
  shows "map_of (tasks (on_points (next_task s) rp (loadShape_begin n s))) (next_task s)
      = Some (AwaitStats n raw)"
    and "trace (on_points (next_task s) rp (loadShape_begin n s)) =
      trace s @ [SetLoading True, SetError None, FetchIssued (points_url n),
        FetchSettled (points_url n), FetchIssued (stats_url n)]"
    and "pointsRef (on_points (next_task s) rp (loadShape_begin n s)) = pointsRef s"
    and "scene (on_points (next_task s) rp (loadShape_begin n s)) = scene s"
    and "heap (on_points (next_task s) rp (loadShape_begin n s)) = heap s"
    and "next_obj (on_points (next_task s) rp (loadShape_begin n s)) = next_obj s"
    and "error (on_points (next_task s) rp (loadShape_begin n s)) = None"
  using assms by (simp_all add: on_points_def loadShape_begin_def)

lemma loadShape_success_fields:
  assumes "fetch_json rp = Inr raw" "fetch_json rs = Inr sd"
    and "build_positions f32 raw = Inr buf"
  shows "trace (loadShape f32 n rp rs s) =
      trace s @
      [SetLoading True, SetError None,
       FetchIssued (points_url n), FetchSettled (points_url n),
       FetchIssued (stats_url n), FetchSettled (stats_url n),
       SetStats sd] @
      (case pointsRef s of
         None \<Rightarrow> []
       | Some old \<Rightarrow> [SceneRemove old, DisposeGeometry old, DisposeMaterial old]) @
      [NewGeometry, NewMaterial (THREE_Color (colour_or_white n)), NewPoints (next_obj s),
       SceneAdd (next_obj s), SetPointsRef (next_obj s), SetLoading False]"
    and "stats (loadShape f32 n rp rs s) = sd"
    and "pointsRef (loadShape f32 n rp rs s) = Some (next_obj s)"
    and "scene (loadShape f32 n rp rs s) =
      (case pointsRef s of None \<Rightarrow> scene s | Some old \<Rightarrow> remove1 (Points old) (scene s))
      @ [Points (next_obj s)]"
    and "heap (loadShape f32 n rp rs s) (next_obj s) =
      Some \<lparr>positions = buf, itemSize = 3, colour = THREE_Color (colour_or_white n),
            point_size = 0.012, sizeAttenuation = True, transparent = True,
            opacity = 0.5, geometry_disposed = False, material_disposed = False\<rparr>"
    and "error (loadShape f32 n rp rs s) = None"
    and "\<not> loading (loadShape f32 n rp rs s)"
  unfolding loadShape_def
  using on_stats_success_fields(1-7) [OF awaiting_stats(1) [OF assms(1), of s n] assms(2,3)]
  unfolding awaiting_stats(2-7) [OF assms(1)]
  by simp_all

lemma loadShape_success_others:
  assumes "fetch_json rp = Inr raw" "fetch_json rs = Inr sd"
    and "build_positions f32 raw = Inr buf" and "i \<noteq> next_obj s"
  shows "heap (loadShape f32 n rp rs s) i =
      (if pointsRef s = Some i then map_option dispose (heap s i) else heap s i)"
  unfolding loadShape_def
  using on_stats_success_others [OF awaiting_stats(1) [OF assms(1), of s n] assms(2,3), of i]
    assms(4)
  unfolding awaiting_stats(2-7) [OF assms(1)]
  by simp

lemma allocated_update_store: "allocated s \<Longrightarrow> allocated (snd (update_store f32 n raw sd s))"
  by (simp add: update_store_def Let_def allocated_def remove_previous_def
      split: sum.splits option.splits)

lemma allocated_catch_finally: "allocated (catch_finally t s) = allocated s"
  by (simp add: allocated_def catch_finally_def)

lemma allocated_finally_only: "allocated (finally_only t s) = allocated s"
  by (simp add: allocated_def finally_only_def)

lemma allocated_on_stats: "allocated s \<Longrightarrow> allocated (on_stats f32 t r s)"
proof -
  assume a: "allocated s"
  have *: "allocated s'"
    if "update_store f32 n raw sd (s\<lparr>trace := tr\<rparr>) = (e, s')" for n raw sd tr e s'
  proof -
    have "allocated (s\<lparr>trace := tr\<rparr>)"
      using a by (simp add: allocated_def)
    from allocated_update_store [OF this, of f32 n raw sd] that show ?thesis by simp
  qed
  show ?thesis
    using a
    by (auto simp: on_stats_def allocated_catch_finally allocated_finally_only dest: *
        split: option.splits task.splits sum.splits prod.splits)
qed

lemma allocated_handle: "allocated s \<Longrightarrow> allocated (handle f32 e s)"
proof (cases e)
  case (StatsResponse t r)
  assume "allocated s"
  with StatsResponse show ?thesis by (simp add: allocated_on_stats)
next
  case (PointsResponse t r)
  assume "allocated s"
  with PointsResponse show ?thesis
    by (simp add: on_points_def allocated_catch_finally
        split: option.splits task.splits sum.splits)
      (simp add: allocated_def)
qed (simp_all add: allocated_def loadShape_begin_def)

lemma allocated_run: "allocated s \<Longrightarrow> allocated (run f32 es s)"
  by (induction es arbitrary: s) (simp_all add: allocated_handle)

lemma reachable_allocated: "allocated (run f32 es initial_app)"
  by (rule allocated_run) (simp add: allocated_def initial_app_def)

lemma disposed_flags:
  "map_option geometry_disposed (map_option dispose x) = map_option (\<lambda>ob. True) x"
  "map_option material_disposed (map_option dispose x) = map_option (\<lambda>ob. True) x"
  by (cases x; simp add: dispose_def)+

lemma example_positions:
  "build_positions (\<lambda>v. v) example_points = Inr [JNum 1, JNum 0, JNum 0, JNum 0, JNum 1, JNum 0.5]"
  by (simp add: build_positions_def Float32Array_from_def example_points_def point_def xyz_def)

lemma loaded_fields:
  "pointsRef loaded = Some 0" "next_obj loaded = 1" "next_task loaded = 1"
  "scene loaded = [GridHelper, AxesHelper, Points 0]" "stats loaded = example_stats 2"
  "map_option geometry_disposed (heap loaded 0) = Some False"
  by (simp_all add: viewer_defs)

text \<open>
  Claim C3: on the success path of a call of \<^verbatim>\<open>loadShape\<close> the effects occur in this
  order. The start of the call sets the loading flag, clears the error and issues the
  fetch of the points; the answer to it, when it is JSON, issues the fetch of the stats
  and changes nothing of the store; the answer to that, when it is JSON and the points
  convert, is one step in which the stats are updated, the previous render object (if
  there is one) is removed from the scene and its geometry and material are disposed,
  then the replacement is constructed with undisposed geometry and material, attached to
  the scene and recorded as current, and the loading flag is cleared. The same holds,
  in one trace, for a call with no other handler in between. (The previous object is
  never the one being allocated: see \<open>reachable_allocated\<close>.)
\<close>

theorem load_success_effect_order:
  "trace (loadShape_begin n s) =
     trace s @ [SetLoading True, SetError None, FetchIssued (points_url n)]
   \<and> (map_of (tasks s) t = Some (AwaitPoints n) \<and> fetch_json rp = Inr raw \<longrightarrow>
        trace (on_points t rp s) =
          trace s @ [FetchSettled (points_url n), FetchIssued (stats_url n)]
        \<and> store (on_points t rp s) = store s
        \<and> map_of (tasks (on_points t rp s)) t = Some (AwaitStats n raw))
   \<and> (map_of (tasks s) t = Some (AwaitStats n raw) \<and> fetch_json rs = Inr sd
        \<and> build_positions f32 raw = Inr buf \<longrightarrow>
        trace (on_stats f32 t rs s) =
          trace s @ [FetchSettled (stats_url n), SetStats sd] @
          (case pointsRef s of
             None \<Rightarrow> []
           | Some old \<Rightarrow> [SceneRemove old, DisposeGeometry old, DisposeMaterial old]) @
          [NewGeometry, NewMaterial (THREE_Color (colour_or_white n)), NewPoints (next_obj s),
           SceneAdd (next_obj s), SetPointsRef (next_obj s), SetLoading False]
        \<and> stats (on_stats f32 t rs s) = sd
        \<and> pointsRef (on_stats f32 t rs s) = Some (next_obj s)
        \<and> scene (on_stats f32 t rs s) =
            (case pointsRef s of None \<Rightarrow> scene s | Some old \<Rightarrow> remove1 (Points old) (scene s))
            @ [Points (next_obj s)]
        \<and> heap (on_stats f32 t rs s) (next_obj s) =
            Some \<lparr>positions = buf, itemSize = 3, colour = THREE_Color (colour_or_white n),
                  point_size = 0.012, sizeAttenuation = True, transparent = True,
                  opacity = 0.5, geometry_disposed = False, material_disposed = False\<rparr>
        \<and> (\<forall>old. pointsRef s = Some old \<and> old \<noteq> next_obj s \<longrightarrow>
              map_option geometry_disposed (heap (on_stats f32 t rs s) old)
                = map_option (\<lambda>ob. True) (heap s old)
              \<and> map_option material_disposed (heap (on_stats f32 t rs s) old)
                = map_option (\<lambda>ob. True) (heap s old))
        \<and> \<not> loading (on_stats f32 t rs s))
   \<and> (fetch_json rp = Inr raw \<and> fetch_json rs = Inr sd
        \<and> build_positions f32 raw = Inr buf \<longrightarrow>
        trace (loadShape f32 n rp rs s) =
          trace s @
          [SetLoading True, SetError None,
           FetchIssued (points_url n), FetchSettled (points_url n),
           FetchIssued (stats_url n), FetchSettled (stats_url n),
           SetStats sd] @
          (case pointsRef s of
             None \<Rightarrow> []
           | Some old \<Rightarrow> [SceneRemove old, DisposeGeometry old, DisposeMaterial old]) @
          [NewGeometry, NewMaterial (THREE_Color (colour_or_white n)), NewPoints (next_obj s),
           SceneAdd (next_obj s), SetPointsRef (next_obj s), SetLoading False]
        \<and> stats (loadShape f32 n rp rs s) = sd
        \<and> pointsRef (loadShape f32 n rp rs s) = Some (next_obj s)
        \<and> scene (loadShape f32 n rp rs s) =
            (case pointsRef s of None \<Rightarrow> scene s | Some old \<Rightarrow> remove1 (Points old) (scene s))
            @ [Points (next_obj s)]
        \<and> heap (loadShape f32 n rp rs s) (next_obj s) =
            Some \<lparr>positions = buf, itemSize = 3, colour = THREE_Color (colour_or_white n),
                  point_size = 0.012, sizeAttenuation = True, transparent = True,
                  opacity = 0.5, geometry_disposed = False, material_disposed = False\<rparr>
        \<and> (\<forall>old. pointsRef s = Some old \<and> old \<noteq> next_obj s \<longrightarrow>
              map_option geometry_disposed (heap (loadShape f32 n rp rs s) old)
                = map_option (\<lambda>ob. True) (heap s old)
              \<and> map_option material_disposed (heap (loadShape f32 n rp rs s) old)
                = map_option (\<lambda>ob. True) (heap s old))
        \<and> error (loadShape f32 n rp rs s) = None
        \<and> \<not> loading (loadShape f32 n rp rs s))"
proof -
  have a: "trace (loadShape_begin n s) =
     trace s @ [SetLoading True, SetError None, FetchIssued (points_url n)]"
    by (simp add: loadShape_begin_def)
  have b: "trace (on_points t rp s) =
          trace s @ [FetchSettled (points_url n), FetchIssued (stats_url n)]
        \<and> store (on_points t rp s) = store s
        \<and> map_of (tasks (on_points t rp s)) t = Some (AwaitStats n raw)"
    if "map_of (tasks s) t = Some (AwaitPoints n)" "fetch_json rp = Inr raw"
    using that by (simp add: on_points_def store_def)
  have c: "map_option geometry_disposed (heap (on_stats f32 t rs s) old)
                = map_option (\<lambda>ob. True) (heap s old)
              \<and> map_option material_disposed (heap (on_stats f32 t rs s) old)
                = map_option (\<lambda>ob. True) (heap s old)"
    if "map_of (tasks s) t = Some (AwaitStats n raw)" "fetch_json rs = Inr sd"
      "build_positions f32 raw = Inr buf" "pointsRef s = Some old" "old \<noteq> next_obj s" for old
    using on_stats_success_others [OF that(1,2,3,5)] that(4) by (simp add: disposed_flags)
  have d: "map_option geometry_disposed (heap (loadShape f32 n rp rs s) old)
                = map_option (\<lambda>ob. True) (heap s old)
              \<and> map_option material_disposed (heap (loadShape f32 n rp rs s) old)
                = map_option (\<lambda>ob. True) (heap s old)"
    if "fetch_json rp = Inr raw" "fetch_json rs = Inr sd"
      "build_positions f32 raw = Inr buf" "pointsRef s = Some old" "old \<noteq> next_obj s" for old
    using loadShape_success_others [OF that(1,2,3,5)] that(4) by (simp add: disposed_flags)
  show ?thesis
    using a b c d on_stats_success_fields(1-5,7) [of s t n raw rs sd f32 buf]
      loadShape_success_fields [of rp raw rs sd f32 buf n s]
    by blast
qed

theorem load_success_effect_order_witness:
  "fetch_json (Resolved 200 (Some example_points)) = Inr example_points
   \<and> fetch_json (Resolved 200 (Some (example_stats 3))) = Inr (example_stats 3)
   \<and> build_positions (\<lambda>v. v) example_points = Inr [JNum 1, JNum 0, JNum 0, JNum 0, JNum 1, JNum 0.5]
   \<and> trace (loadShape (\<lambda>v. v) ''cube'' (Resolved 200 (Some example_points))
        (Resolved 200 (Some (example_stats 3))) loaded) =
      trace loaded @
      [SetLoading True, SetError None,
       FetchIssued ''shapes/cube.points.json'', FetchSettled ''shapes/cube.points.json'',
       FetchIssued ''shapes/cube.stats.json'', FetchSettled ''shapes/cube.stats.json'',
       SetStats (example_stats 3),
       SceneRemove 0, DisposeGeometry 0, DisposeMaterial 0,
       NewGeometry, NewMaterial ''#40c4ff'', NewPoints 1, SceneAdd 1, SetPointsRef 1,
       SetLoading False]
   \<and> scene (loadShape (\<lambda>v. v) ''cube'' (Resolved 200 (Some example_points))
        (Resolved 200 (Some (example_stats 3))) loaded) = [GridHelper, AxesHelper, Points 1]
   \<and> map_option geometry_disposed (heap (loadShape (\<lambda>v. v) ''cube''
        (Resolved 200 (Some example_points)) (Resolved 200 (Some (example_stats 3))) loaded) 0)
      = Some True
   \<and> map_option geometry_disposed (heap (loadShape (\<lambda>v. v) ''cube''
        (Resolved 200 (Some example_points)) (Resolved 200 (Some (example_stats 3))) loaded) 1)
      = Some False"
proof -
  let ?s = "loadShape (\<lambda>v. v) ''cube'' (Resolved 200 (Some example_points))
        (Resolved 200 (Some (example_stats 3))) loaded"
  have h1: "fetch_json (Resolved 200 (Some example_points)) = Inr example_points"
    and h2: "fetch_json (Resolved 200 (Some (example_stats 3))) = Inr (example_stats 3)"
    by simp_all
  note h3 = example_positions
  note c = load_success_effect_order [where s = loaded and n = "''cube''" and ?f32.0 = "\<lambda>v. v"
      and rp = "Resolved 200 (Some example_points)" and raw = example_points
      and rs = "Resolved 200 (Some (example_stats 3))" and sd = "example_stats 3"
      and buf = "[JNum 1, JNum 0, JNum 0, JNum 0, JNum 1, JNum 0.5]"]
  from c h1 h2 h3 have t: "trace ?s =
          trace loaded @
          [SetLoading True, SetError None,
           FetchIssued (points_url ''cube''), FetchSettled (points_url ''cube''),
           FetchIssued (stats_url ''cube''), FetchSettled (stats_url ''cube''),
           SetStats (example_stats 3)] @
          (case pointsRef loaded of
             None \<Rightarrow> []
           | Some old \<Rightarrow> [SceneRemove old, DisposeGeometry old, DisposeMaterial old]) @
          [NewGeometry, NewMaterial (THREE_Color (colour_or_white ''cube'')),
           NewPoints (next_obj loaded),
           SceneAdd (next_obj loaded), SetPointsRef (next_obj loaded), SetLoading False]"
    and sc: "scene ?s =
            (case pointsRef loaded of None \<Rightarrow> scene loaded
             | Some old \<Rightarrow> remove1 (Points old) (scene loaded))
            @ [Points (next_obj loaded)]"
    and hn: "heap ?s (next_obj loaded) =
            Some \<lparr>positions = [JNum 1, JNum 0, JNum 0, JNum 0, JNum 1, JNum 0.5], itemSize = 3,
                  colour = THREE_Color (colour_or_white ''cube''),
                  point_size = 0.012, sizeAttenuation = True, transparent = True,
                  opacity = 0.5, geometry_disposed = False, material_disposed = False\<rparr>"
    and ho: "\<forall>old. pointsRef loaded = Some old \<and> old \<noteq> next_obj loaded \<longrightarrow>
              map_option geometry_disposed (heap ?s old)
                = map_option (\<lambda>ob. True) (heap loaded old)
              \<and> map_option material_disposed (heap ?s old)
                = map_option (\<lambda>ob. True) (heap loaded old)"
    by blast+
  from ho [rule_format, of 0] loaded_fields
  have d0: "map_option geometry_disposed (heap ?s 0) = Some True"
    by (cases "heap loaded 0") simp_all
  from hn have d1: "map_option geometry_disposed (heap ?s 1) = Some False"
    by (simp add: loaded_fields)
  from t have t': "trace ?s = trace loaded @
      [SetLoading True, SetError None,
       FetchIssued ''shapes/cube.points.json'', FetchSettled ''shapes/cube.points.json'',
       FetchIssued ''shapes/cube.stats.json'', FetchSettled ''shapes/cube.stats.json'',
       SetStats (example_stats 3),
       SceneRemove 0, DisposeGeometry 0, DisposeMaterial 0,
       NewGeometry, NewMaterial ''#40c4ff'', NewPoints 1, SceneAdd 1, SetPointsRef 1,
       SetLoading False]"
    by (simp add: loaded_fields colour_or_white_def COLORS_def points_url_def stats_url_def)
  from sc have sc': "scene ?s = [GridHelper, AxesHelper, Points 1]"
    by (simp add: loaded_fields)
  from h1 h2 h3 t' sc' d0 d1 show ?thesis by blast
qed

lemma coord_ok: "p \<noteq> JNull \<Longrightarrow> p \<noteq> JUndefined \<Longrightarrow> coord p k = Inr (own_property p k)"
  by (cases p) simp_all

lemma flatMap_xyz_ok:
  "\<forall>p\<in>set ps. point_converts p \<Longrightarrow>
   flatMap_xyz ps =
     Inr (concat (map (\<lambda>p. [own_property p ''x'', own_property p ''y'', own_property p ''z'']) ps))"
  by (induction ps) (auto simp: xyz_def coord_ok point_converts_def)

lemma coordinates_convert:
  "\<forall>p\<in>set ps. point_converts p \<Longrightarrow>
   \<not> list_ex ToNumber_throws
       (concat (map (\<lambda>p. [own_property p ''x'', own_property p ''y'', own_property p ''z'']) ps))"
  by (induction ps) (auto simp: point_converts_def)

lemma build_positions_ok:
  assumes "\<forall>p\<in>set ps. point_converts p"
  shows "build_positions f32 (JArr ps) =
     Inr (concat (map (\<lambda>p. [f32 (own_property p ''x''), f32 (own_property p ''y''),
       f32 (own_property p ''z'')]) ps))"
  using coordinates_convert [OF assms]
  by (simp add: build_positions_def Float32Array_from_def flatMap_xyz_ok [OF assms]
      map_concat comp_def)

lemma triples_length: "length (concat (map (\<lambda>p. [f p, g p, h p]) ps)) = 3 * length ps"
  by (induction ps) simp_all

lemma triples_nth:
  "i < length ps \<Longrightarrow>
   concat (map (\<lambda>p. [f p, g p, h p]) ps) ! (3 * i) = f (ps ! i)
   \<and> concat (map (\<lambda>p. [f p, g p, h p]) ps) ! (3 * i + 1) = g (ps ! i)
   \<and> concat (map (\<lambda>p. [f p, g p, h p]) ps) ! (3 * i + 2) = h (ps ! i)"
proof (induction ps arbitrary: i)
  case Nil
  then show ?case by simp
next
  case (Cons p ps)
  show ?case
  proof (cases i)
    case 0
    then show ?thesis by simp
  next
    case (Suc j)
    with Cons.prems have "j < length ps" by simp
    from Cons.IH [OF this] Suc show ?thesis by simp
  qed
qed

lemma success_buffer:
  assumes "build_positions f32 raw = Inr buf" "fetch_json rs = Inr sd"
  shows "map_of (tasks s) t = Some (AwaitStats n raw) \<Longrightarrow>
      position_buffer (on_stats f32 t rs s) = Some buf"
    and "map_of (tasks s) t = Some (AwaitStats n raw) \<Longrightarrow>
      current_colour (on_stats f32 t rs s) = Some (THREE_Color (colour_or_white n))"
    and "fetch_json rp = Inr raw \<Longrightarrow>
      position_buffer (loadShape f32 n rp rs s) = Some buf"
    and "fetch_json rp = Inr raw \<Longrightarrow>
      current_colour (loadShape f32 n rp rs s) = Some (THREE_Color (colour_or_white n))"
  using on_stats_success_fields(3,5) [OF _ assms(2,1), of s t n]
    loadShape_success_fields(3,5) [OF _ assms(2,1), of rp n s]
  by (simp_all add: position_buffer_def current_colour_def)

lemma point_converts_point: "point_converts (point x y z)"
  by (simp add: point_converts_def point_def)

text \<open>
  Claim C5: for a fetched sequence of \<open>n\<close> points (values on which line 144 does not
  throw: not \<^verbatim>\<open>null\<close>, with coordinates that convert to numbers), the position buffer
  built by \<^verbatim>\<open>loadShape\<close> has length \<open>3n\<close>, and its entries \<open>3i\<close>, \<open>3i + 1\<close>, \<open>3i + 2\<close>
  are the \<open>x\<close>, \<open>y\<close> and \<open>z\<close> of the \<open>i\<close>-th point, each as the typed array stores it;
  both for the step that answers the second fetch, at any state, and for a call with no
  other handler in between.
\<close>

theorem position_buffer_layout:
  "(map_of (tasks s) t = Some (AwaitStats n (JArr ps)) \<and> fetch_json rs = Inr sd
      \<and> (\<forall>p\<in>set ps. point_converts p) \<longrightarrow>
      (\<exists>buf. position_buffer (on_stats f32 t rs s) = Some buf
         \<and> length buf = 3 * length ps
         \<and> (\<forall>i<length ps.
               buf ! (3 * i) = f32 (own_property (ps ! i) ''x'')
               \<and> buf ! (3 * i + 1) = f32 (own_property (ps ! i) ''y'')
               \<and> buf ! (3 * i + 2) = f32 (own_property (ps ! i) ''z''))))
   \<and> (fetch_json rp = Inr (JArr ps) \<and> fetch_json rs = Inr sd
      \<and> (\<forall>p\<in>set ps. point_converts p) \<longrightarrow>
      (\<exists>buf. position_buffer (loadShape f32 n rp rs s) = Some buf
         \<and> length buf = 3 * length ps
         \<and> (\<forall>i<length ps.
               buf ! (3 * i) = f32 (own_property (ps ! i) ''x'')
               \<and> buf ! (3 * i + 1) = f32 (own_property (ps ! i) ''y'')
               \<and> buf ! (3 * i + 2) = f32 (own_property (ps ! i) ''z''))))"
proof -
  let ?buf = "concat (map (\<lambda>p. [f32 (own_property p ''x''), f32 (own_property p ''y''),
      f32 (own_property p ''z'')]) ps)"
  have len: "length ?buf = 3 * length ps"
    by (rule triples_length)
  have ent: "\<forall>i<length ps.
          ?buf ! (3 * i) = f32 (own_property (ps ! i) ''x'')
          \<and> ?buf ! (3 * i + 1) = f32 (own_property (ps ! i) ''y'')
          \<and> ?buf ! (3 * i + 2) = f32 (own_property (ps ! i) ''z'')"
    using triples_nth [of _ ps "\<lambda>p. f32 (own_property p ''x'')"
        "\<lambda>p. f32 (own_property p ''y'')" "\<lambda>p. f32 (own_property p ''z'')"]
    by blast
  have step: "position_buffer (on_stats f32 t rs s) = Some ?buf"
    if "map_of (tasks s) t = Some (AwaitStats n (JArr ps))" "fetch_json rs = Inr sd"
      "\<forall>p\<in>set ps. point_converts p"
    using success_buffer(1) [OF build_positions_ok [OF that(3)] that(2,1)] .
  have whole: "position_buffer (loadShape f32 n rp rs s) = Some ?buf"
    if "fetch_json rp = Inr (JArr ps)" "fetch_json rs = Inr sd"
      "\<forall>p\<in>set ps. point_converts p"
    using success_buffer(3) [OF build_positions_ok [OF that(3)] that(2,1)] .
  from len ent step whole show ?thesis by blast
qed

theorem position_buffer_layout_witness:
  "fetch_json (Resolved 200 (Some (JArr [point 1 0 0, point 0 1 0.5])))
      = Inr (JArr [point 1 0 0, point 0 1 0.5])
   \<and> fetch_json (Resolved 200 (Some (example_stats 2))) = Inr (example_stats 2)
   \<and> point_converts (point 1 0 0) \<and> point_converts (point 0 1 0.5)
   \<and> (\<exists>buf. position_buffer (loadShape (\<lambda>v. v) ''helix''
                (Resolved 200 (Some (JArr [point 1 0 0, point 0 1 0.5])))
                (Resolved 200 (Some (example_stats 2))) initial_app) = Some buf
        \<and> length buf = 6
        \<and> buf ! 0 = JNum 1 \<and> buf ! 1 = JNum 0 \<and> buf ! 2 = JNum 0
        \<and> buf ! 3 = JNum 0 \<and> buf ! 4 = JNum 1 \<and> buf ! 5 = JNum 0.5)"
proof -
  let ?ps = "[point 1 0 0, point 0 1 0.5]"
  have h1: "fetch_json (Resolved 200 (Some (JArr ?ps))) = Inr (JArr ?ps)"
    and h2: "fetch_json (Resolved 200 (Some (example_stats 2))) = Inr (example_stats 2)"
    by simp_all
  have h3: "\<forall>p\<in>set ?ps. point_converts p"
    by (simp add: point_converts_point)
  from position_buffer_layout [where ps = ?ps and rp = "Resolved 200 (Some (JArr ?ps))"
      and rs = "Resolved 200 (Some (example_stats 2))" and sd = "example_stats 2"
      and ?f32.0 = "\<lambda>v. v" and n = "''helix''" and s = initial_app] h1 h2 h3
  obtain buf where b: "position_buffer (loadShape (\<lambda>v. v) ''helix''
        (Resolved 200 (Some (JArr ?ps))) (Resolved 200 (Some (example_stats 2))) initial_app)
        = Some buf"
    "length buf = 3 * length ?ps"
    "\<forall>i<length ?ps.
          buf ! (3 * i) = own_property (?ps ! i) ''x''
          \<and> buf ! (3 * i + 1) = own_property (?ps ! i) ''y''
          \<and> buf ! (3 * i + 2) = own_property (?ps ! i) ''z''"
    by blast
  have l0: "0 < length ?ps" and l1: "1 < length ?ps"
    by simp_all
  from b(3) [rule_format, OF l0] b(3) [rule_format, OF l1]
  have "buf ! 0 = JNum 1 \<and> buf ! 1 = JNum 0 \<and> buf ! 2 = JNum 0
        \<and> buf ! 3 = JNum 0 \<and> buf ! 4 = JNum 1 \<and> buf ! 5 = JNum 0.5"
    by (simp add: point_def numeral_2_eq_2)
  with b(1,2) h1 h2 show ?thesis by (simp add: point_converts_point)
qed

lemma COLORS_unique: "\<forall>n\<in>set SHAPES. \<exists>!c. (n, c) \<in> set COLORS"
  by (simp add: SHAPES_def COLORS_def)

lemma colour_of_name:
  "THREE_Color (colour_or_white n) = (case map_of COLORS n of Some c \<Rightarrow> c | None \<Rightarrow> ''#ffffff'')"
  by (simp add: colour_or_white_def split: option.splits)

text \<open>
  Claim C6: each of the seven names of \<^verbatim>\<open>SHAPES\<close> has exactly one colour in
  \<^verbatim>\<open>COLORS\<close>, and for every name the material colour of the render object that a
  successful call of \<^verbatim>\<open>loadShape\<close> builds (both fetches answer with JSON and line 144
  does not throw) is the colour of the name in the table, or white when the table has
  no entry for the name.
\<close>

theorem colour_of_shape:
  "length SHAPES = 7 \<and> distinct SHAPES
   \<and> (\<forall>n\<in>set SHAPES. \<exists>!c. (n, c) \<in> set COLORS)
   \<and> (map_of (tasks s) t = Some (AwaitStats n raw) \<and> fetch_json rs = Inr sd
        \<and> build_positions f32 raw = Inr buf \<longrightarrow>
        current_colour (on_stats f32 t rs s)
          = Some (case map_of COLORS n of Some c \<Rightarrow> c | None \<Rightarrow> ''#ffffff''))
   \<and> (fetch_json rp = Inr raw \<and> fetch_json rs = Inr sd
        \<and> build_positions f32 raw = Inr buf \<longrightarrow>
        current_colour (loadShape f32 n rp rs s)
          = Some (case map_of COLORS n of Some c \<Rightarrow> c | None \<Rightarrow> ''#ffffff''))"
  using success_buffer(2) [where ?f32.0 = f32 and raw = raw and buf = buf and rs = rs
      and sd = sd and s = s and t = t and n = n]
    success_buffer(4) [where ?f32.0 = f32 and raw = raw and buf = buf and rs = rs
      and sd = sd and rp = rp and s = s and n = n]
    COLORS_unique
  by (simp add: SHAPES_def colour_of_name)

theorem colour_of_shape_witness:
  "fetch_json (Resolved 200 (Some example_points)) = Inr example_points
   \<and> fetch_json (Resolved 200 (Some (example_stats 2))) = Inr (example_stats 2)
   \<and> build_positions (\<lambda>v. v) example_points
        = Inr [JNum 1, JNum 0, JNum 0, JNum 0, JNum 1, JNum 0.5]
   \<and> ''torus'' \<in> set SHAPES
   \<and> (\<exists>!c. (''torus'', c) \<in> set COLORS)
   \<and> current_colour (loadShape (\<lambda>v. v) ''torus'' (Resolved 200 (Some example_points))
        (Resolved 200 (Some (example_stats 2))) loaded) = Some ''#ff6b6b''"
proof -
  have h: "fetch_json (Resolved 200 (Some example_points)) = Inr example_points
      \<and> fetch_json (Resolved 200 (Some (example_stats 2))) = Inr (example_stats 2)
      \<and> build_positions (\<lambda>v. v) example_points
          = Inr [JNum 1, JNum 0, JNum 0, JNum 0, JNum 1, JNum 0.5]"
    by (simp add: example_positions)
  have t: "''torus'' \<in> set SHAPES"
    by (simp add: SHAPES_def)
  have m: "map_of COLORS ''torus'' = Some ''#ff6b6b''"
    by (simp add: COLORS_def)
  note c = colour_of_shape [where rp = "Resolved 200 (Some example_points)" and raw = example_points
      and rs = "Resolved 200 (Some (example_stats 2))" and sd = "example_stats 2"
      and buf = "[JNum 1, JNum 0, JNum 0, JNum 0, JNum 1, JNum 0.5]" and ?f32.0 = "\<lambda>v. v"
      and n = "''torus''" and s = loaded]
  from c t have "\<exists>!c. (''torus'', c) \<in> set COLORS"
    by blast
  moreover from c h m have "current_colour (loadShape (\<lambda>v. v) ''torus''
        (Resolved 200 (Some example_points))
        (Resolved 200 (Some (example_stats 2))) loaded) = Some ''#ff6b6b''"
    by simp
  ultimately show ?thesis using h t by blast
qed

text \<open>
  Claim C10: \<^verbatim>\<open>loadShape\<close> does not validate its argument. For every string it starts
  in the same way and issues the fetch of \<^verbatim>\<open>shapes/{name}.points.json\<close> at once; when
  that answers with JSON it fetches \<^verbatim>\<open>shapes/{name}.stats.json\<close>; and when the call
  succeeds for a name with no entry in the colour table, the points are white.
\<close>

theorem loadShape_accepts_any_name:
  "trace (loadShape_begin n s) =
     trace s @ [SetLoading True, SetError None, FetchIssued (''shapes/'' @ n @ ''.points.json'')]
   \<and> map_of (tasks (loadShape_begin n s)) (next_task s) = Some (AwaitPoints n)
   \<and> (fetch_json rp = Inr raw \<longrightarrow>
        trace (on_points (next_task s) rp (loadShape_begin n s)) =
          trace (loadShape_begin n s) @
          [FetchSettled (''shapes/'' @ n @ ''.points.json''),
           FetchIssued (''shapes/'' @ n @ ''.stats.json'')]
        \<and> map_of (tasks (on_points (next_task s) rp (loadShape_begin n s))) (next_task s)
            = Some (AwaitStats n raw))
   \<and> (fetch_json rp = Inr raw \<and> fetch_json rs = Inr sd \<and> build_positions f32 raw = Inr buf
        \<and> map_of COLORS n = None \<longrightarrow>
        current_colour (loadShape f32 n rp rs s) = Some ''#ffffff'')
   \<and> (map_of (tasks s') t = Some (AwaitStats n raw) \<and> fetch_json rs = Inr sd
        \<and> build_positions f32 raw = Inr buf \<and> map_of COLORS n = None \<longrightarrow>
        current_colour (on_stats f32 t rs s') = Some ''#ffffff'')"
  using success_buffer(4) [where ?f32.0 = f32 and raw = raw and buf = buf and rs = rs
      and sd = sd and rp = rp and s = s and n = n]
    success_buffer(2) [where ?f32.0 = f32 and raw = raw and buf = buf and rs = rs
      and sd = sd and s = s' and t = t and n = n]
  by (simp add: loadShape_begin_def on_points_def points_url_def stats_url_def colour_of_name)

theorem loadShape_accepts_any_name_witness:
  "trace (loadShape_begin ''dodecahedron'' loaded) =
     trace loaded @ [SetLoading True, SetError None, FetchIssued ''shapes/dodecahedron.points.json'']
   \<and> fetch_json (Resolved 200 (Some example_points)) = Inr example_points
   \<and> fetch_json (Resolved 200 (Some (example_stats 2))) = Inr (example_stats 2)
   \<and> build_positions (\<lambda>v. v) example_points
        = Inr [JNum 1, JNum 0, JNum 0, JNum 0, JNum 1, JNum 0.5]
   \<and> map_of COLORS ''dodecahedron'' = None
   \<and> trace (on_points (next_task loaded) (Resolved 200 (Some example_points))
        (loadShape_begin ''dodecahedron'' loaded)) =
       trace (loadShape_begin ''dodecahedron'' loaded) @
       [FetchSettled ''shapes/dodecahedron.points.json'',
        FetchIssued ''shapes/dodecahedron.stats.json'']
   \<and> current_colour (loadShape (\<lambda>v. v) ''dodecahedron'' (Resolved 200 (Some example_points))
        (Resolved 200 (Some (example_stats 2))) loaded) = Some ''#ffffff''"
proof -
  have h: "fetch_json (Resolved 200 (Some example_points)) = Inr example_points
      \<and> fetch_json (Resolved 200 (Some (example_stats 2))) = Inr (example_stats 2)
      \<and> build_positions (\<lambda>v. v) example_points
          = Inr [JNum 1, JNum 0, JNum 0, JNum 0, JNum 1, JNum 0.5]"
    by (simp add: example_positions)
  have m: "map_of COLORS ''dodecahedron'' = None"
    by (simp add: COLORS_def)
  from loadShape_accepts_any_name [where n = "''dodecahedron''" and s = loaded
      and rp = "Resolved 200 (Some example_points)" and raw = example_points
      and rs = "Resolved 200 (Some (example_stats 2))" and sd = "example_stats 2"
      and buf = "[JNum 1, JNum 0, JNum 0, JNum 0, JNum 1, JNum 0.5]" and ?f32.0 = "\<lambda>v. v"
      and s' = loaded and t = 0] h m
  show ?thesis by simp
qed

lemma inherited_name_is_white:
  "THREE_Color (colour_or_white ''constructor'') = ''#ffffff''"
  by (simp add: colour_or_white_def COLORS_def Object_prototype_keys_def)

text \<open>
  A points body whose first coordinate cannot be converted: line 144 throws, the
  \<^verbatim>\<open>catch\<close> block runs, and \<^verbatim>\<open>pointsRef.current\<close> still names the removed object.
\<close>

lemma conversion_failure_is_caught:
  "build_positions (\<lambda>v. v) (JArr [bad_point]) = Inl TypeError
   \<and> error (loadShape (\<lambda>v. v) ''cube'' (Resolved 200 (Some (JArr [bad_point])))
        (Resolved 200 (Some (example_stats 3))) loaded) = Some backend_message
   \<and> pointsRef (loadShape (\<lambda>v. v) ''cube'' (Resolved 200 (Some (JArr [bad_point])))
        (Resolved 200 (Some (example_stats 3))) loaded) = Some 0
   \<and> scene (loadShape (\<lambda>v. v) ''cube'' (Resolved 200 (Some (JArr [bad_point])))
        (Resolved 200 (Some (example_stats 3))) loaded) = [GridHelper, AxesHelper]
   \<and> current_colour (loadShape (\<lambda>v. v) ''cube'' (Resolved 200 (Some (JArr [bad_point])))
        (Resolved 200 (Some (example_stats 3))) loaded) = Some ''#00e5ff''"
  by (simp add: viewer_defs current_colour_def)

section \<open>The loading flag and overlapping calls\<close>

lemma map_of_in_flight: "map_of ts t = Some x \<Longrightarrow> t \<in> fst ` set ts"
  by (metis map_of_eq_None_iff option.distinct(1))

lemma fst_drop_task: "fst ` set (drop_task t ts) = fst ` set ts - {t}"
  by (auto simp: drop_task_def)

lemma in_flight_catch_finally: "set (in_flight (catch_finally t s)) = set (in_flight s) - {t}"
  by (simp add: in_flight_def catch_finally_def fst_drop_task)

lemma in_flight_finally_only: "set (in_flight (finally_only t s)) = set (in_flight s) - {t}"
  by (simp add: in_flight_def finally_only_def fst_drop_task)

lemma loading_catch_finally: "\<not> loading (catch_finally t s)"
  by (simp add: catch_finally_def)

lemma loading_finally_only: "\<not> loading (finally_only t s)"
  by (simp add: finally_only_def)

lemma on_points_cases:
  "on_points t r s = s
   \<or> (t \<in> set (in_flight s) \<and> t \<notin> set (in_flight (on_points t r s))
       \<and> \<not> loading (on_points t r s))
   \<or> (set (in_flight (on_points t r s)) = set (in_flight s)
       \<and> loading (on_points t r s) = loading s)"
proof (cases "map_of (tasks s) t")
  case None
  then show ?thesis by (simp add: on_points_def)
next
  case (Some a)
  then have t: "t \<in> set (in_flight s)"
    by (auto simp: in_flight_def dest: map_of_in_flight)
  show ?thesis
  proof (cases a)
    case (AwaitStats n raw)
    with Some show ?thesis by (simp add: on_points_def)
  next
    case (AwaitPoints n)
    show ?thesis
    proof (cases "fetch_json r")
      case (Inl e)
      with Some AwaitPoints have "on_points t r s = catch_finally t s"
        by (simp add: on_points_def)
      with t show ?thesis
        by (simp add: in_flight_catch_finally loading_catch_finally)
    next
      case (Inr raw)
      with Some AwaitPoints t show ?thesis
        by (auto simp: on_points_def in_flight_def fst_drop_task)
    qed
  qed
qed

lemma on_stats_cases:
  "on_stats f32 t r s = s
   \<or> (t \<in> set (in_flight s) \<and> t \<notin> set (in_flight (on_stats f32 t r s))
       \<and> \<not> loading (on_stats f32 t r s))"
proof (cases "map_of (tasks s) t")
  case None
  then show ?thesis by (simp add: on_stats_def)
next
  case (Some a)
  then have t: "t \<in> set (in_flight s)"
    by (auto simp: in_flight_def dest: map_of_in_flight)
  show ?thesis
  proof (cases a)
    case (AwaitPoints x)
    with Some show ?thesis by (simp add: on_stats_def)
  next
    case (AwaitStats n raw)
    show ?thesis
    proof (cases "fetch_json r")
      case (Inl e)
      with Some AwaitStats have "on_stats f32 t r s = catch_finally t s"
        by (simp add: on_stats_def)
      with t show ?thesis
        by (simp add: in_flight_catch_finally loading_catch_finally)
    next
      case (Inr sd)
      obtain e s' where u: "update_store f32 n raw sd
          (s\<lparr>trace := trace s @ [FetchSettled (stats_url n)]\<rparr>) = (e, s')"
        by (cases "update_store f32 n raw sd (s\<lparr>trace := trace s @ [FetchSettled (stats_url n)]\<rparr>)")
      with Some AwaitStats Inr
      have "on_stats f32 t r s = catch_finally t s' \<or> on_stats f32 t r s = finally_only t s'"
        by (cases e) (simp_all add: on_stats_def)
      with t show ?thesis
        by (auto simp: in_flight_catch_finally loading_catch_finally
            in_flight_finally_only loading_finally_only)
    qed
  qed
qed

lemma handle_loading:
  "\<not> finishes f32 e s \<Longrightarrow> loading s \<Longrightarrow> loading (handle f32 e s)"
proof (cases e)
  case (PointsResponse t r)
  assume "\<not> finishes f32 e s" "loading s"
  with PointsResponse on_points_cases [of t r s] show ?thesis
    by (auto simp: finishes_def list_ex_iff)
next
  case (StatsResponse t r)
  assume "\<not> finishes f32 e s" "loading s"
  with StatsResponse on_stats_cases [of f32 t r s] show ?thesis
    by (auto simp: finishes_def list_ex_iff)
qed (simp_all add: loadShape_begin_def)

lemma finishes_clears:
  "finishes f32 e s \<Longrightarrow> \<not> loading (handle f32 e s)"
proof (cases e)
  case (PointsResponse t r)
  assume "finishes f32 e s"
  with PointsResponse on_points_cases [of t r s] show ?thesis
    by (auto simp: finishes_def list_ex_iff)
next
  case (StatsResponse t r)
  assume "finishes f32 e s"
  with StatsResponse on_stats_cases [of f32 t r s] show ?thesis
    by (auto simp: finishes_def list_ex_iff)
qed (auto simp: finishes_def list_ex_iff in_flight_def loadShape_begin_def)

lemma quiet_loading: "quiet f32 es s \<Longrightarrow> loading s \<Longrightarrow> loading (run f32 es s)"
  by (induction es arbitrary: s) (simp_all add: handle_loading)


lemma loadShape_ends:
  "\<not> loading (loadShape f32 n rp rs s)
   \<and> next_task s \<notin> set (in_flight (loadShape f32 n rp rs s))"
proof (cases "fetch_json rp")
  case (Inl e)
  then show ?thesis by (simp add: load_defs in_flight_def fst_drop_task)
next
  case (Inr raw)
  let ?s = "on_points (next_task s) rp (loadShape_begin n s)"
  note task = awaiting_stats(1) [OF Inr, of s n]
  show ?thesis
  proof (cases "fetch_json rs")
    case (Inl e)
    then have "loadShape f32 n rp rs s = catch_finally (next_task s) ?s"
      unfolding loadShape_def using on_stats_failed [OF task] by simp
    then show ?thesis
      by (simp add: in_flight_catch_finally loading_catch_finally)
  next
    case (Inr sd)
    obtain e s' where "update_store f32 n raw sd
        (?s\<lparr>trace := trace ?s @ [FetchSettled (stats_url n)]\<rparr>) = (e, s')"
      by (cases "update_store f32 n raw sd
        (?s\<lparr>trace := trace ?s @ [FetchSettled (stats_url n)]\<rparr>)")
    then have "loadShape f32 n rp rs s = catch_finally (next_task s) s'
        \<or> loadShape f32 n rp rs s = finally_only (next_task s) s'"
      unfolding loadShape_def on_stats_fetched [OF task Inr]
      by (cases e) simp_all
    then show ?thesis
      by (auto simp: in_flight_catch_finally loading_catch_finally
          in_flight_finally_only loading_finally_only)
  qed
qed

text \<open>
  Claim C4, as stated: for every call of \<^verbatim>\<open>loadShape\<close> the loading flag is true from
  the invocation to the completion of the call. This fails when two calls overlap: the
  default shape is being loaded, the user clicks ``torus'', and the first call
  completes. The loading flag is then false while the call for the torus is still
  waiting for its points.
\<close>

theorem loading_cleared_while_call_in_flight:
  "map_of (tasks (run (\<lambda>v. v)
      [ClickShape ''torus'',
       PointsResponse 0 (Resolved 200 (Some example_points)),
       StatsResponse 0 (Resolved 200 (Some (example_stats 2)))] mounted)) 1
     = Some (AwaitPoints ''torus'')
   \<and> \<not> loading (run (\<lambda>v. v)
      [ClickShape ''torus'',
       PointsResponse 0 (Resolved 200 (Some example_points)),
       StatsResponse 0 (Resolved 200 (Some (example_stats 2)))] mounted)"
  by (simp add: viewer_defs)

text \<open>
  Claim C4, amended: a call of \<^verbatim>\<open>loadShape\<close> sets the loading flag when it is invoked
  and is then in flight; the flag stays true for as long as no call of \<^verbatim>\<open>loadShape\<close>
  (this one or an overlapping one) completes; whenever a call completes, by success or
  by failure, the flag is false right after; and a call that runs from its start to its
  end with no other handler in between ends, whatever the network answers, with the
  flag false and the call no longer in flight.
\<close>

theorem loading_flag_of_a_call:
  "loading (loadShape_begin n s)
   \<and> next_task s \<in> set (in_flight (loadShape_begin n s))
   \<and> (quiet f32 es (loadShape_begin n s) \<longrightarrow> loading (run f32 es (loadShape_begin n s)))
   \<and> (finishes f32 e s \<longrightarrow> \<not> loading (handle f32 e s))
   \<and> \<not> loading (loadShape f32 n rp rs s)
   \<and> next_task s \<notin> set (in_flight (loadShape f32 n rp rs s))"
proof -
  have b: "loading (loadShape_begin n s)"
    by (simp add: loadShape_begin_def)
  have "next_task s \<in> set (in_flight (loadShape_begin n s))"
    by (simp add: loadShape_begin_def in_flight_def)
  moreover have "quiet f32 es (loadShape_begin n s) \<longrightarrow> loading (run f32 es (loadShape_begin n s))"
    using quiet_loading [of f32 es "loadShape_begin n s"] b by blast
  moreover have "finishes f32 e s \<longrightarrow> \<not> loading (handle f32 e s)"
    using finishes_clears by blast
  moreover have "\<not> loading (loadShape f32 n rp rs s)
      \<and> next_task s \<notin> set (in_flight (loadShape f32 n rp rs s))"
    by (rule loadShape_ends)
  ultimately show ?thesis using b by blast
qed

theorem loading_flag_of_a_call_witness:
  "quiet (\<lambda>v. v) [MouseDown 0 0, PointsResponse 0 (Resolved 200 (Some example_points))]
     (loadShape_begin ''sphere'' initial_app)
   \<and> loading (run (\<lambda>v. v) [MouseDown 0 0, PointsResponse 0 (Resolved 200 (Some example_points))]
     (loadShape_begin ''sphere'' initial_app))
   \<and> finishes (\<lambda>v. v) (PointsResponse 0 Rejected) (loadShape_begin ''sphere'' initial_app)
   \<and> \<not> loading (handle (\<lambda>v. v) (PointsResponse 0 Rejected) (loadShape_begin ''sphere'' initial_app))
   \<and> \<not> loading (loadShape (\<lambda>v. v) ''sphere'' (Resolved 200 (Some example_points)) (Resolved 500 None) initial_app)"
proof -
  have q: "quiet (\<lambda>v. v) [MouseDown 0 0, PointsResponse 0 (Resolved 200 (Some example_points))]
     (loadShape_begin ''sphere'' (initial_app :: jsval app))"
    by (simp add: finishes_def in_flight_def viewer_defs)
  have f: "finishes (\<lambda>v. v) (PointsResponse 0 Rejected) (loadShape_begin ''sphere'' (initial_app :: jsval app))"
    by (simp add: finishes_def in_flight_def viewer_defs)
  from loading_flag_of_a_call [of "''sphere''" "initial_app :: jsval app" "\<lambda>v. v"
      "[MouseDown 0 0, PointsResponse 0 (Resolved 200 (Some example_points))]"
      "PointsResponse 0 Rejected" "Resolved 200 (Some example_points)" "Resolved 500 None"]
    loading_flag_of_a_call [of "''sphere''" "loadShape_begin ''sphere'' (initial_app :: jsval app)" "\<lambda>v. v"
      "[]" "PointsResponse 0 Rejected" Rejected Rejected] q f
  show ?thesis by blast
qed

text \<open>
  Claim C9: while the loading flag is true, every shape button is enabled, and a click
  on the button of a shape sets the selection and starts a call of \<^verbatim>\<open>loadShape\<close> at
  once (the first fetch is issued), in addition to the calls already in flight; the
  reload button is disabled exactly when the loading flag is true, and a click on it
  then does nothing.
\<close>

theorem shape_buttons_enabled_while_loading:
  assumes "loading s" "n \<in> set SHAPES"
  shows "\<lparr>disabled = False, onClick = ClickShape n\<rparr> \<in> set (shape_buttons s)
    \<and> (\<forall>b\<in>set (shape_buttons s). \<not> disabled b)
    \<and> click f32 \<lparr>disabled = False, onClick = ClickShape n\<rparr> s
        = loadShape_begin n (s\<lparr>shape := n, trace := trace s @ [SetShape n]\<rparr>)
    \<and> shape (click f32 \<lparr>disabled = False, onClick = ClickShape n\<rparr> s) = n
    \<and> trace (click f32 \<lparr>disabled = False, onClick = ClickShape n\<rparr> s)
        = trace s @ [SetShape n, SetLoading True, SetError None, FetchIssued (points_url n)]
    \<and> in_flight (click f32 \<lparr>disabled = False, onClick = ClickShape n\<rparr> s)
        = next_task s # in_flight s
    \<and> disabled (reload_button s)
    \<and> click f32 (reload_button s) s = s
    \<and> disabled (reload_button s') = loading s'"
  using assms
  by (auto simp: shape_buttons_def reload_button_def click_def loadShape_begin_def in_flight_def)

theorem shape_buttons_enabled_while_loading_witness:
  "loading (mounted :: jsval app) \<and> ''torus'' \<in> set SHAPES
   \<and> in_flight (click (\<lambda>v. v) \<lparr>disabled = False, onClick = ClickShape ''torus''\<rparr> mounted) = [1, 0]
   \<and> shape (click (\<lambda>v. v) \<lparr>disabled = False, onClick = ClickShape ''torus''\<rparr> mounted) = ''torus''
   \<and> click (\<lambda>v. v) (reload_button (mounted :: jsval app)) mounted = mounted"
proof -
  have l: "loading (mounted :: jsval app)"
    by (simp add: mounted_def loadShape_begin_def)
  have t: "''torus'' \<in> set SHAPES"
    by (simp add: SHAPES_def)
  have m: "in_flight (mounted :: jsval app) = [0]" "next_task (mounted :: jsval app) = 1"
    by (simp_all add: mounted_def loadShape_begin_def initial_app_def in_flight_def)
  note c = shape_buttons_enabled_while_loading [OF l t, where ?f32.0 = "\<lambda>v. v" and s' = "mounted :: jsval app"]
  from c have a: "in_flight (click (\<lambda>v. v) \<lparr>disabled = False, onClick = ClickShape ''torus''\<rparr> mounted)
      = next_task (mounted :: jsval app) # in_flight (mounted :: jsval app)"
    by blast
  from c have b: "shape (click (\<lambda>v. v) \<lparr>disabled = False, onClick = ClickShape ''torus''\<rparr> mounted)
      = ''torus''"
    by blast
  from c have d: "click (\<lambda>v. v) (reload_button (mounted :: jsval app)) mounted = mounted"
    by blast
  show ?thesis
    unfolding a b m using l t d by simp
qed

end
